theory Spec2Isabelle
  imports Main "HOL-Library.Char_ord" "HOL-Library.List_Lexorder"
begin

section \<open>The relational state\<close>

text \<open>
  The application keeps all its state in a MySQL database and reaches it only through
  \<^verbatim>\<open>database/db.py\<close>. A table is the list of its rows, in insertion order; the columns
  are the ones the modelled statements name. Identifiers and timestamps are natural
  numbers; free text whose individual characters matter (a chat message, which is
  trimmed) is a list of Unicode code points.
\<close>

type_synonym pystr = "nat list"

record user_row =
  u_id :: nat
  u_full_name :: string
  u_profile_pic :: "string option"

record connection_row =
  c_id :: nat
  c_sender_id :: nat
  c_receiver_id :: nat
  c_status :: string
  c_created_at :: nat

record message_row =
  m_id :: nat
  m_sender_id :: nat
  m_receiver_id :: nat
  m_message :: pystr
  m_created_at :: nat

record notification_row =
  n_id :: nat
  n_user_id :: nat
  n_message :: string
  n_type :: string
  n_is_read :: bool
  n_created_at :: nat

record like_row =
  l_id :: nat
  l_user_id :: nat
  l_post_id :: nat
  l_created_at :: nat

record event_row =
  e_id :: nat
  e_title :: string
  e_max_participants :: "int option"

record registration_row =
  r_id :: nat
  r_user_id :: nat
  r_event_id :: nat
  r_registered_at :: nat

record opportunity_row =
  o_id :: nat
  o_title :: string

record application_row =
  a_id :: nat
  a_user_id :: nat
  a_opportunity_id :: nat
  a_resume_file :: string
  a_status :: string
  a_applied_at :: nat

record database =
  users :: "user_row list"
  connections :: "connection_row list"
  messages :: "message_row list"
  notifications :: "notification_row list"
  likes :: "like_row list"
  events :: "event_row list"
  event_registrations :: "registration_row list"
  opportunities :: "opportunity_row list"
  applications :: "application_row list"

section \<open>The driver and \<^verbatim>\<open>execute_query\<close>\<close>

text \<open>
  Every call of \<^verbatim>\<open>execute_query\<close> opens a connection of its own, runs one statement and
  leaves through its \<^verbatim>\<open>finally\<close> block. What the MySQL driver does during one such call
  is an input of the model: a \<open>fault\<close> names the driver call that raises
  \<^verbatim>\<open>mysql.connector.Error\<close>, if that call is reached. \<open>ExecuteError\<close> stands for
  \<^verbatim>\<open>connection.cursor\<close> or \<^verbatim>\<open>cursor.execute\<close> raising. The connection does not
  autocommit: a statement changes the committed database only through
  \<^verbatim>\<open>connection.commit\<close>.

  The cursor is not buffered. After \<^verbatim>\<open>fetchone\<close> has taken the first of several rows
  the others are left unread, and \<^verbatim>\<open>cursor.close\<close> in the \<^verbatim>\<open>finally\<close> block then
  raises \<^verbatim>\<open>InternalError\<close> (unread result found). That block is outside the
  \<^verbatim>\<open>except Error\<close> handler, so the exception leaves \<^verbatim>\<open>execute_query\<close>, and the
  connection is not closed. The other calls made while cleaning up (\<^verbatim>\<open>rollback\<close>,
  \<^verbatim>\<open>is_connected\<close>, \<^verbatim>\<open>connection.close\<close>) are taken not to raise.
\<close>

datatype fault = NoFault | ConnectError | ExecuteError | FetchError | CommitError

datatype table = Users | Connections | Messages | Notifications | Likes | Events
  | EventRegistrations | Opportunities | Applications

datatype sql_kind = Select | Insert | Update | Delete

datatype driver_call = Connect | Execute sql_kind "table list" | FetchOne | FetchAll
  | Commit | Rollback | Close

text \<open>
  A statement with its parameters bound: the kind and the tables it names, and what it
  computes from the identifier the database generates for an inserted row and from the
  database: the result rows, the database as the open transaction sees it afterwards,
  and the cursor's \<^verbatim>\<open>lastrowid\<close>.
\<close>

record 'r statement =
  kind :: sql_kind
  tables :: "table list"
  run :: "nat \<Rightarrow> database \<Rightarrow> 'r list \<times> database \<times> nat"

definition select_from :: "table list \<Rightarrow> (database \<Rightarrow> 'r list) \<Rightarrow> 'r statement" where
  "select_from ts f = \<lparr>kind = Select, tables = ts, run = (\<lambda>i d. (f d, d, 0))\<rparr>"

definition insert_into :: "table \<Rightarrow> (nat \<Rightarrow> database \<Rightarrow> database) \<Rightarrow> 'r statement" where
  "insert_into t f = \<lparr>kind = Insert, tables = [t], run = (\<lambda>i d. ([], f i d, i))\<rparr>"

definition modify :: "sql_kind \<Rightarrow> table \<Rightarrow> (database \<Rightarrow> database) \<Rightarrow> 'r statement" where
  "modify k t f = \<lparr>kind = k, tables = [t], run = (\<lambda>i d. ([], f d, 0))\<rparr>"

text \<open>
  A lookup by the generated identifier: the identifier is the table's key, so at most
  one row matches.
\<close>

definition by_key :: "('a \<Rightarrow> bool) \<Rightarrow> 'a list \<Rightarrow> 'a list" where
  "by_key P rows = (case find P rows of None \<Rightarrow> [] | Some r \<Rightarrow> [r])"

text \<open>The value \<^verbatim>\<open>execute_query\<close> returns, when it is not \<^verbatim>\<open>None\<close>.\<close>

datatype 'r qresult = Row 'r | RowList "'r list" | LastRowId nat

text \<open>How a call ends: it returns a value, or an exception leaves it.\<close>

datatype 'a reply = Returned 'a | Raised

definition map_reply :: "('a \<Rightarrow> 'b) \<Rightarrow> 'a reply \<Rightarrow> 'b reply" where
  "map_reply f r = (case r of Returned x \<Rightarrow> Returned (f x) | Raised \<Rightarrow> Raised)"

text \<open>
  How a \<^verbatim>\<open>try: ... except Exception: pass\<close> block around a notification ends: without
  an exception, or with one raised before \<^verbatim>\<open>create_notification\<close> has run its insert,
  or with one raised after the insert was committed.
\<close>

datatype interruption = NoException | ExceptionBeforeCall | ExceptionAfterCall

text \<open>
  The world a request runs in: the committed database, the identifier the database will
  generate next for each table (never handed out twice, and not given back by a
  rollback), the stored resume files, the list of faults the driver will show (one per
  \<^verbatim>\<open>execute_query\<close> call, none once the list is used up), how the guarded notification
  block will end, the clock (constant during one request), the driver calls made so far
  and the messages flashed so far. The declarations of the tables are not among the
  sources; an insert names no identifier, so the database generates it.
\<close>

record world =
  db :: database
  auto_increment :: "table \<Rightarrow> nat"
  files :: "string list"
  faults :: "fault list"
  interrupt :: interruption
  now :: nat
  calls :: "driver_call list"
  flashes :: "(string \<times> string) list"

definition called :: "driver_call \<Rightarrow> world \<Rightarrow> world" where
  "called c w = w\<lparr>calls := calls w @ [c]\<rparr>"

definition next_fault :: "world \<Rightarrow> fault \<times> world" where
  "next_fault w = (case faults w of [] \<Rightarrow> (NoFault, w) | f # fs \<Rightarrow> (f, w\<lparr>faults := fs\<rparr>))"

text \<open>
  \<^verbatim>\<open>get_db_connection\<close>: \<^verbatim>\<open>None\<close> when connecting raises \<^verbatim>\<open>Error\<close>, else the
  connection, which is represented by what the driver will do on it.
\<close>

definition get_db_connection :: "world \<Rightarrow> fault option \<times> world" where
  "get_db_connection w =
     (case next_fault w of (f, w1) \<Rightarrow>
        if f = ConnectError then (None, w1) else (Some f, called Connect w1))"

text \<open>The \<^verbatim>\<open>except Error\<close> handler: roll back when the call asked for a commit.\<close>

definition on_error :: "bool \<Rightarrow> world \<Rightarrow> world" where
  "on_error commit w = (if commit then called Rollback w else w)"

text \<open>
  \<^verbatim>\<open>cursor.fetchone\<close>: the first row, or \<^verbatim>\<open>None\<close>, and the rows the cursor still
  holds unread.
\<close>

definition fetchone :: "'r list \<Rightarrow> 'r qresult option \<times> 'r list" where
  "fetchone rows = (case rows of [] \<Rightarrow> (None, []) | r # rest \<Rightarrow> (Some (Row r), rest))"

text \<open>
  The identifier the database generates when the statement inserts, and the counter
  after the statement has been executed: an insert uses the identifier up, whatever
  becomes of the transaction.
\<close>

definition generated_id :: "'r statement \<Rightarrow> world \<Rightarrow> nat" where
  "generated_id query w = (case tables query of [] \<Rightarrow> 0 | t # _ \<Rightarrow> auto_increment w t)"

definition executed :: "'r statement \<Rightarrow> world \<Rightarrow> world" where
  "executed query w =
     (let w1 = called (Execute (kind query) (tables query)) w in
      case tables query of
        [] \<Rightarrow> w1
      | t # _ \<Rightarrow>
          if kind query = Insert
          then w1\<lparr>auto_increment := (auto_increment w1)(t := Suc (auto_increment w1 t))\<rparr>
          else w1)"

text \<open>
  The \<^verbatim>\<open>try\<close> block of \<^verbatim>\<open>execute_query\<close> with its \<^verbatim>\<open>except Error\<close> handler,
  on a connection that shows the fault \<open>f\<close>: the result, the rows left unread in the
  cursor, and the world. A statement run without a fetch leaves all its rows unread;
  \<^verbatim>\<open>connection.commit\<close> raises \<^verbatim>\<open>Error\<close> on unread rows, and the handler's
  \<^verbatim>\<open>rollback\<close> reads them. (The sources fetch after every \<^verbatim>\<open>SELECT\<close>, and the
  statements they commit have no result rows.)
\<close>

definition try_block ::
  "'r statement \<Rightarrow> bool \<Rightarrow> bool \<Rightarrow> bool \<Rightarrow> fault \<Rightarrow> world
     \<Rightarrow> 'r qresult option \<times> 'r list \<times> world" where
  "try_block query fetch_one fetch_all commit f w =
     (if f = ExecuteError then (None, [], on_error commit w)
      else
        (let rows = fst (run query (generated_id query w) (db w));
             d' = fst (snd (run query (generated_id query w) (db w)));
             rowid = snd (snd (run query (generated_id query w) (db w)));
             w1 = executed query w
         in
         if fetch_one then
           (if f = FetchError then (None, [], on_error commit w1)
            else (fst (fetchone rows), snd (fetchone rows), called FetchOne w1))
         else if fetch_all then
           (if f = FetchError then (None, [], on_error commit w1)
            else (Some (RowList rows), [], called FetchAll w1))
         else if commit then
           (if f = CommitError \<or> rows \<noteq> [] then (None, [], on_error commit w1)
            else (Some (LastRowId rowid), [], (called Commit w1)\<lparr>db := d'\<rparr>))
         else (None, rows, w1)))"

text \<open>
  The \<^verbatim>\<open>finally\<close> block and the \<^verbatim>\<open>return\<close>: closing the cursor raises when rows are
  unread, and the exception leaves \<^verbatim>\<open>execute_query\<close>; otherwise the connection is
  closed and the result returned.
\<close>

definition finally_block ::
  "'r qresult option \<times> 'r list \<times> world \<Rightarrow> 'r qresult option reply \<times> world" where
  "finally_block r =
     (if fst (snd r) = [] then (Returned (fst r), called Close (snd (snd r)))
      else (Raised, snd (snd r)))"

text \<open>\<^verbatim>\<open>execute_query\<close>\<close>

definition execute_query ::
  "'r statement \<Rightarrow> bool \<Rightarrow> bool \<Rightarrow> bool \<Rightarrow> world \<Rightarrow> 'r qresult option reply \<times> world" where
  "execute_query query fetch_one fetch_all commit w =
     (case get_db_connection w of
        (None, w1) \<Rightarrow> (Returned None, w1)
      | (Some f, w1) \<Rightarrow> finally_block (try_block query fetch_one fetch_all commit f w1))"

section \<open>Requests, sessions and responses\<close>

record session =
  user_id :: "nat option"
  user_name :: "string option"

datatype endpoint = Auth_login | Chat_chat_list | Chat_conversation nat
  | Profile_view_profile nat | Connections_incoming_requests | Connections_my_connections
  | Events_list_events | Events_view_event nat | Opportunities_list_opportunities
  | Opportunities_view_opportunity nat | Opportunities_my_applications | Feed_global_feed
  | Referrer string

record contact =
  ct_user_id :: nat
  ct_full_name :: string
  ct_profile_pic :: "string option"

record shown_message =
  sm_message :: message_row
  sm_sender_name :: string
  sm_sender_pic :: "string option"

record conversation_entry =
  ce_user_id :: nat
  ce_full_name :: string
  ce_profile_pic :: "string option"
  ce_last_message :: "message_row option"
  ce_unread_count :: nat

text \<open>
  What a request ends with: a redirect, a rendered page, or an exception that no handler
  of the sources catches, which ends the request.
\<close>

datatype response = Redirect endpoint
  | Render_chat_list "conversation_entry list"
  | Render_conversation user_row "shown_message list" nat
  | Uncaught_TypeError
  | Uncaught_InternalError

definition flash :: "string \<Rightarrow> string \<Rightarrow> world \<Rightarrow> world" where
  "flash msg category w = w\<lparr>flashes := flashes w @ [(msg, category)]\<rparr>"

text \<open>
  The views do not guard their \<^verbatim>\<open>execute_query\<close> calls: when one raises, the request
  ends there; otherwise the view goes on with what the call returned.
\<close>

definition propagate ::
  "'a reply \<times> world \<Rightarrow> ('a \<Rightarrow> world \<Rightarrow> response \<times> world) \<Rightarrow> response \<times> world" where
  "propagate r k =
     (case fst r of Raised \<Rightarrow> (Uncaught_InternalError, snd r) | Returned x \<Rightarrow> k x (snd r))"

text \<open>
  The decorator \<^verbatim>\<open>login_required\<close>, the same in every blueprint. The wrapped view
  reads \<^verbatim>\<open>session['user_id']\<close> first; here the decorator hands it that value.
\<close>

definition login_required ::
  "(nat \<Rightarrow> world \<Rightarrow> response \<times> world) \<Rightarrow> session \<Rightarrow> world \<Rightarrow> response \<times> world" where
  "login_required f s w =
     (case user_id s of
        None \<Rightarrow> (Redirect Auth_login, flash ''Please login to access this page.'' ''warning'' w)
      | Some uid \<Rightarrow> f uid w)"

text \<open>\<^verbatim>\<open>session.get('user_name', 'Someone')\<close>\<close>

definition session_user_name :: "session \<Rightarrow> string" where
  "session_user_name s = (case user_name s of None \<Rightarrow> ''Someone'' | Some n \<Rightarrow> n)"

text \<open>Python's truth value of what \<^verbatim>\<open>execute_query\<close> returned.\<close>

fun truthy :: "'r qresult option \<Rightarrow> bool" where
  "truthy None = False"
| "truthy (Some (Row r)) = True"
| "truthy (Some (RowList rs)) = (rs \<noteq> [])"
| "truthy (Some (LastRowId n)) = (n \<noteq> 0)"

text \<open>\<^verbatim>\<open>rows or []\<close>\<close>

fun or_empty :: "'r qresult option \<Rightarrow> 'r list" where
  "or_empty (Some (RowList rs)) = rs"
| "or_empty _ = []"

text \<open>\<^verbatim>\<open>row['count'] if row else 0\<close>\<close>

fun count_or_zero :: "nat qresult option \<Rightarrow> nat" where
  "count_or_zero (Some (Row n)) = n"
| "count_or_zero _ = 0"

section \<open>Notifications (\<^verbatim>\<open>notifications/utils.py\<close>)\<close>

definition sql_insert_notification :: "nat \<Rightarrow> string \<Rightarrow> string \<Rightarrow> nat \<Rightarrow> unit statement" where
  "sql_insert_notification uid msg ty t =
     insert_into Notifications (\<lambda>i d.
       d\<lparr>notifications := notifications d @
            [\<lparr>n_id = i, n_user_id = uid, n_message = msg, n_type = ty,
              n_is_read = False, n_created_at = t\<rparr>]\<rparr>)"

definition create_notification ::
  "nat \<Rightarrow> string \<Rightarrow> string \<Rightarrow> world \<Rightarrow> unit qresult option reply \<times> world" where
  "create_notification uid msg notification_type w =
     execute_query (sql_insert_notification uid msg notification_type (now w)) False False True w"

text \<open>
  The callers wrap the call in \<^verbatim>\<open>try: ... except Exception: pass\<close>. The block can be
  left by an exception before the insert is reached or after it has been committed;
  which of these happens is the world's \<open>interrupt\<close>. The handler swallows the exception
  and the view goes on either way.
\<close>

definition try_create_notification :: "nat \<Rightarrow> string \<Rightarrow> string \<Rightarrow> world \<Rightarrow> world" where
  "try_create_notification uid msg notification_type w =
     (case interrupt w of
        ExceptionBeforeCall \<Rightarrow> w
      | _ \<Rightarrow> snd (create_notification uid msg notification_type w))"

section \<open>Chat (\<^verbatim>\<open>chat/routes.py\<close>)\<close>

text \<open>
  \<^verbatim>\<open>str.strip()\<close> removes the code points for which \<^verbatim>\<open>str.isspace\<close> holds from both
  ends.
\<close>

definition isspace :: "nat \<Rightarrow> bool" where
  "isspace c = ((9 \<le> c \<and> c \<le> 13) \<or> (28 \<le> c \<and> c \<le> 32) \<or> c = 133 \<or> c = 160 \<or> c = 5760
     \<or> (8192 \<le> c \<and> c \<le> 8202) \<or> c = 8232 \<or> c = 8233 \<or> c = 8239 \<or> c = 8287 \<or> c = 12288)"

definition strip :: "pystr \<Rightarrow> pystr" where
  "strip s = rev (dropWhile isspace (rev (dropWhile isspace s)))"

definition between :: "nat \<Rightarrow> nat \<Rightarrow> nat \<Rightarrow> nat \<Rightarrow> nat \<Rightarrow> nat \<Rightarrow> bool" where
  "between sender receiver p1 p2 p3 p4 =
     ((sender = p1 \<and> receiver = p2) \<or> (sender = p3 \<and> receiver = p4))"

definition sql_accepted_connection :: "nat \<Rightarrow> nat \<Rightarrow> nat \<Rightarrow> nat \<Rightarrow> nat statement" where
  "sql_accepted_connection p1 p2 p3 p4 =
     select_from [Connections] (\<lambda>d.
       map c_id (filter (\<lambda>c. c_status c = ''accepted''
                  \<and> between (c_sender_id c) (c_receiver_id c) p1 p2 p3 p4) (connections d)))"

definition is_connected :: "nat \<Rightarrow> nat \<Rightarrow> world \<Rightarrow> bool reply \<times> world" where
  "is_connected uid partner_id w =
     (case execute_query (sql_accepted_connection uid partner_id partner_id uid) True False False w
      of (connection, w1) \<Rightarrow> (map_reply (\<lambda>c. c \<noteq> None) connection, w1))"

definition sql_connected_users :: "nat \<Rightarrow> contact statement" where
  "sql_connected_users uid =
     select_from [Connections, Users] (\<lambda>d.
       sort_key ct_full_name
         (concat (map (\<lambda>c. concat (map (\<lambda>u1. concat (map (\<lambda>u2.
             if u_id u1 = c_sender_id c \<and> u_id u2 = c_receiver_id c
                \<and> c_status c = ''accepted'' \<and> (c_sender_id c = uid \<or> c_receiver_id c = uid)
             then [if c_sender_id c = uid
                   then \<lparr>ct_user_id = c_receiver_id c, ct_full_name = u_full_name u2,
                         ct_profile_pic = u_profile_pic u2\<rparr>
                   else \<lparr>ct_user_id = c_sender_id c, ct_full_name = u_full_name u1,
                         ct_profile_pic = u_profile_pic u1\<rparr>]
             else []) (users d))) (users d))) (connections d))))"

definition get_connected_users :: "nat \<Rightarrow> world \<Rightarrow> contact qresult option reply \<times> world" where
  "get_connected_users uid w = execute_query (sql_connected_users uid) False True False w"

definition sql_last_message :: "nat \<Rightarrow> nat \<Rightarrow> nat \<Rightarrow> nat \<Rightarrow> message_row statement" where
  "sql_last_message p1 p2 p3 p4 =
     select_from [Messages] (\<lambda>d.
       take 1 (rev (sort_key m_created_at
         (filter (\<lambda>m. between (m_sender_id m) (m_receiver_id m) p1 p2 p3 p4) (messages d)))))"

definition sql_count_messages_from_to :: "nat \<Rightarrow> nat \<Rightarrow> nat statement" where
  "sql_count_messages_from_to p1 p2 =
     select_from [Messages] (\<lambda>d.
       [length (filter (\<lambda>m. m_sender_id m = p1 \<and> m_receiver_id m = p2) (messages d))])"

text \<open>The body of the loop of \<^verbatim>\<open>chat_list\<close>, for one connected user.\<close>

definition chat_list_entry ::
  "nat \<Rightarrow> contact \<Rightarrow> world \<Rightarrow> conversation_entry reply \<times> world" where
  "chat_list_entry uid u w =
     (let partner_id = ct_user_id u in
      case execute_query (sql_last_message uid partner_id partner_id uid) True False False w
      of (last_message, w1) \<Rightarrow>
        (case last_message of
           Raised \<Rightarrow> (Raised, w1)
         | Returned lm \<Rightarrow>
             (case execute_query (sql_count_messages_from_to partner_id uid)
                     True False False w1
              of (unread_count, w2) \<Rightarrow>
                (map_reply (\<lambda>unread.
                   \<lparr>ce_user_id = partner_id, ce_full_name = ct_full_name u,
                    ce_profile_pic = ct_profile_pic u,
                    ce_last_message = (case lm of Some (Row m) \<Rightarrow> Some m | _ \<Rightarrow> None),
                    ce_unread_count = count_or_zero unread\<rparr>) unread_count, w2))))"

fun chat_list_loop ::
  "nat \<Rightarrow> contact list \<Rightarrow> conversation_entry list \<Rightarrow> world
     \<Rightarrow> conversation_entry list reply \<times> world" where
  "chat_list_loop uid [] conversations w = (Returned conversations, w)"
| "chat_list_loop uid (u # us) conversations w =
     (case chat_list_entry uid u w of
        (Raised, w1) \<Rightarrow> (Raised, w1)
      | (Returned e, w1) \<Rightarrow> chat_list_loop uid us (conversations @ [e]) w1)"

text \<open>
  The sort key is the last message's \<^verbatim>\<open>created_at\<close>, or the empty string for a
  conversation without messages. Python cannot order a string and a datetime: the sort
  raises \<^verbatim>\<open>TypeError\<close> when both kinds of key occur. Otherwise it is a stable sort,
  in reverse.
\<close>

definition sort_key_of :: "conversation_entry \<Rightarrow> nat" where
  "sort_key_of x = (case ce_last_message x of None \<Rightarrow> 0 | Some m \<Rightarrow> m_created_at m)"

definition sort_conversations :: "conversation_entry list \<Rightarrow> conversation_entry list option" where
  "sort_conversations cs =
     (if list_ex (\<lambda>x. ce_last_message x = None) cs \<and> list_ex (\<lambda>x. ce_last_message x \<noteq> None) cs
      then None
      else Some (rev (sort_key sort_key_of (rev cs))))"

definition chat_list_body :: "nat \<Rightarrow> world \<Rightarrow> response \<times> world" where
  "chat_list_body uid w =
     propagate (get_connected_users uid w) (\<lambda>connected_users w1.
       propagate (chat_list_loop uid (or_empty connected_users) [] w1) (\<lambda>conversations w2.
         case sort_conversations conversations of
           None \<Rightarrow> (Uncaught_TypeError, w2)
         | Some sorted_conversations \<Rightarrow> (Render_chat_list sorted_conversations, w2)))"

definition chat_list :: "session \<Rightarrow> world \<Rightarrow> response \<times> world" where
  "chat_list s w = login_required chat_list_body s w"

definition sql_user_by_id :: "nat \<Rightarrow> user_row statement" where
  "sql_user_by_id p1 = select_from [Users] (\<lambda>d. by_key (\<lambda>u. u_id u = p1) (users d))"

definition sql_conversation :: "nat \<Rightarrow> nat \<Rightarrow> nat \<Rightarrow> nat \<Rightarrow> shown_message statement" where
  "sql_conversation p1 p2 p3 p4 =
     select_from [Messages, Users] (\<lambda>d.
       sort_key (\<lambda>r. m_created_at (sm_message r))
         (concat (map (\<lambda>m. concat (map (\<lambda>u.
             if m_sender_id m = u_id u \<and> between (m_sender_id m) (m_receiver_id m) p1 p2 p3 p4
             then [\<lparr>sm_message = m, sm_sender_name = u_full_name u,
                    sm_sender_pic = u_profile_pic u\<rparr>]
             else []) (users d))) (messages d))))"

definition conversation_body :: "nat \<Rightarrow> nat \<Rightarrow> world \<Rightarrow> response \<times> world" where
  "conversation_body partner_id uid w =
     (if partner_id = uid then
        (Redirect Chat_chat_list, flash ''You cannot chat with yourself.'' ''warning'' w)
      else
        propagate (is_connected uid partner_id w) (\<lambda>connected w1.
          if \<not> connected then
            (Redirect Chat_chat_list,
             flash ''You can only chat with your connections.'' ''warning'' w1)
          else
            propagate (execute_query (sql_user_by_id partner_id) True False False w1)
              (\<lambda>partner w2.
                 case partner of
                   Some (Row p) \<Rightarrow>
                     propagate (execute_query (sql_conversation uid partner_id partner_id uid)
                                  False True False w2)
                       (\<lambda>msgs w3. (Render_conversation p (or_empty msgs) uid, w3))
                 | _ \<Rightarrow> (Redirect Chat_chat_list, flash ''User not found.'' ''danger'' w2))))"

definition conversation :: "nat \<Rightarrow> session \<Rightarrow> world \<Rightarrow> response \<times> world" where
  "conversation partner_id s w = login_required (conversation_body partner_id) s w"

definition sql_insert_message :: "nat \<Rightarrow> nat \<Rightarrow> pystr \<Rightarrow> nat \<Rightarrow> unit statement" where
  "sql_insert_message p1 p2 p3 t =
     insert_into Messages (\<lambda>i d.
       d\<lparr>messages := messages d @
            [\<lparr>m_id = i, m_sender_id = p1, m_receiver_id = p2, m_message = p3,
              m_created_at = t\<rparr>]\<rparr>)"

text \<open>
  \<open>form_message\<close> is the form's field \<^verbatim>\<open>message\<close>, \<open>None\<close> when the form has none
  (\<^verbatim>\<open>request.form.get('message', '')\<close>).
\<close>

definition send_message_body ::
  "nat \<Rightarrow> pystr option \<Rightarrow> session \<Rightarrow> nat \<Rightarrow> world \<Rightarrow> response \<times> world" where
  "send_message_body partner_id form_message s uid w =
     (if partner_id = uid then
        (Redirect Chat_chat_list, flash ''You cannot message yourself.'' ''warning'' w)
      else
        propagate (is_connected uid partner_id w) (\<lambda>connected w1.
          if \<not> connected then
            (Redirect Chat_chat_list,
             flash ''You can only message your connections.'' ''warning'' w1)
          else
            (let message = strip (case form_message of None \<Rightarrow> [] | Some m \<Rightarrow> m) in
             if message = [] then
               (Redirect (Chat_conversation partner_id),
                flash ''Message cannot be empty.'' ''warning'' w1)
             else
               propagate (execute_query (sql_insert_message uid partner_id message (now w1))
                            False False True w1)
                 (\<lambda>result w2.
                    (Redirect (Chat_conversation partner_id),
                     if result \<noteq> None then
                       try_create_notification partner_id
                         (''New message from '' @ session_user_name s) ''message'' w2
                     else flash ''Failed to send message. Please try again.'' ''danger'' w2)))))"

definition send_message :: "nat \<Rightarrow> pystr option \<Rightarrow> session \<Rightarrow> world \<Rightarrow> response \<times> world" where
  "send_message partner_id form_message s w =
     login_required (send_message_body partner_id form_message s) s w"

text \<open>
  The badge query of the dashboard's \<^verbatim>\<open>index\<close> (\<^verbatim>\<open>dashboard/routes.py\<close>, the
  third of its queries) and the value \<^verbatim>\<open>index\<close> hands to the template as
  \<^verbatim>\<open>unread_messages\<close>.
\<close>

definition sql_count_messages_to :: "nat \<Rightarrow> nat statement" where
  "sql_count_messages_to p1 =
     select_from [Messages] (\<lambda>d. [length (filter (\<lambda>m. m_receiver_id m = p1) (messages d))])"

definition index_unread_messages :: "nat \<Rightarrow> world \<Rightarrow> nat reply \<times> world" where
  "index_unread_messages uid w =
     (case execute_query (sql_count_messages_to uid) True False False w
      of (unread_messages, w1) \<Rightarrow> (map_reply count_or_zero unread_messages, w1))"


section \<open>Connections (\<^verbatim>\<open>connections/routes.py\<close>)\<close>

definition sql_connection_between :: "nat \<Rightarrow> nat \<Rightarrow> nat \<Rightarrow> nat \<Rightarrow> (nat \<times> string) statement" where
  "sql_connection_between p1 p2 p3 p4 =
     select_from [Connections] (\<lambda>d.
       map (\<lambda>c. (c_id c, c_status c))
         (filter (\<lambda>c. between (c_sender_id c) (c_receiver_id c) p1 p2 p3 p4) (connections d)))"

definition sql_insert_connection :: "nat \<Rightarrow> nat \<Rightarrow> nat \<Rightarrow> unit statement" where
  "sql_insert_connection p1 p2 t =
     insert_into Connections (\<lambda>i d.
       d\<lparr>connections := connections d @
            [\<lparr>c_id = i, c_sender_id = p1, c_receiver_id = p2, c_status = ''pending'',
              c_created_at = t\<rparr>]\<rparr>)"

definition send_request_body :: "nat \<Rightarrow> session \<Rightarrow> nat \<Rightarrow> world \<Rightarrow> response \<times> world" where
  "send_request_body target s sender_id w =
     (if sender_id = target then
        (Redirect (Profile_view_profile target),
         flash ''You cannot connect with yourself.'' ''warning'' w)
      else
        propagate (execute_query (sql_connection_between sender_id target target sender_id)
                     True False False w)
          (\<lambda>existing w1.
             case existing of
               Some (Row ex) \<Rightarrow>
                 (Redirect (Profile_view_profile target),
                  if snd ex = ''pending'' then
                    flash ''A connection request is already pending.'' ''info'' w1
                  else if snd ex = ''accepted'' then
                    flash ''You are already connected with this user.'' ''info'' w1
                  else w1)
             | _ \<Rightarrow>
                 propagate (execute_query (sql_insert_connection sender_id target (now w1))
                              False False True w1)
                   (\<lambda>result w2.
                      (Redirect (Profile_view_profile target),
                       if result \<noteq> None then
                         try_create_notification target
                           (''You have a new connection request from '' @ session_user_name s)
                           ''connection''
                           (flash ''Connection request sent successfully!'' ''success'' w2)
                       else
                         flash ''Failed to send connection request. Please try again.''
                           ''danger'' w2))))"

definition send_request :: "nat \<Rightarrow> session \<Rightarrow> world \<Rightarrow> response \<times> world" where
  "send_request target s w = login_required (send_request_body target s) s w"

definition sql_connection_by_id :: "nat \<Rightarrow> connection_row statement" where
  "sql_connection_by_id p1 =
     select_from [Connections] (\<lambda>d. by_key (\<lambda>c. c_id c = p1) (connections d))"

definition sql_accept_connection :: "nat \<Rightarrow> unit statement" where
  "sql_accept_connection p1 =
     modify Update Connections (\<lambda>d.
       d\<lparr>connections :=
           map (\<lambda>c. if c_id c = p1 then c\<lparr>c_status := ''accepted''\<rparr> else c) (connections d)\<rparr>)"

definition sql_delete_connection :: "nat \<Rightarrow> unit statement" where
  "sql_delete_connection p1 =
     modify Delete Connections (\<lambda>d.
       d\<lparr>connections := filter (\<lambda>c. c_id c \<noteq> p1) (connections d)\<rparr>)"

definition respond_request_body ::
  "nat \<Rightarrow> string \<Rightarrow> session \<Rightarrow> nat \<Rightarrow> world \<Rightarrow> response \<times> world" where
  "respond_request_body connection_id action s uid w =
     (if action \<noteq> ''accept'' \<and> action \<noteq> ''reject'' then
        (Redirect Connections_incoming_requests, flash ''Invalid action.'' ''danger'' w)
      else
        propagate (execute_query (sql_connection_by_id connection_id) True False False w)
          (\<lambda>connection w1.
             case connection of
               Some (Row c) \<Rightarrow>
                 if c_receiver_id c \<noteq> uid then
                   (Redirect Connections_incoming_requests,
                    flash ''You are not authorized to respond to this request.'' ''danger'' w1)
                 else if c_status c \<noteq> ''pending'' then
                   (Redirect Connections_incoming_requests,
                    flash ''This request has already been processed.'' ''info'' w1)
                 else if action = ''accept'' then
                   propagate (execute_query (sql_accept_connection connection_id)
                                False False True w1)
                     (\<lambda>_ w2.
                        (Redirect Connections_incoming_requests,
                         try_create_notification (c_sender_id c)
                           (session_user_name s @ '' accepted your connection request'')
                           ''connection''
                           (flash ''Connection request accepted!'' ''success'' w2)))
                 else
                   propagate (execute_query (sql_delete_connection connection_id)
                                False False True w1)
                     (\<lambda>_ w2.
                        (Redirect Connections_incoming_requests,
                         flash ''Connection request declined.'' ''info'' w2))
             | _ \<Rightarrow>
                 (Redirect Connections_incoming_requests,
                  flash ''Connection request not found.'' ''danger'' w1)))"

definition respond_request :: "nat \<Rightarrow> string \<Rightarrow> session \<Rightarrow> world \<Rightarrow> response \<times> world" where
  "respond_request connection_id action s w =
     login_required (respond_request_body connection_id action s) s w"

definition remove_connection_body :: "nat \<Rightarrow> nat \<Rightarrow> world \<Rightarrow> response \<times> world" where
  "remove_connection_body connection_id uid w =
     propagate (execute_query (sql_connection_by_id connection_id) True False False w)
       (\<lambda>connection w1.
          case connection of
            Some (Row c) \<Rightarrow>
              if c_sender_id c \<noteq> uid \<and> c_receiver_id c \<noteq> uid then
                (Redirect Connections_my_connections,
                 flash ''You are not authorized to remove this connection.'' ''danger'' w1)
              else
                propagate (execute_query (sql_delete_connection connection_id)
                             False False True w1)
                  (\<lambda>_ w2.
                     (Redirect Connections_my_connections,
                      flash ''Connection removed.'' ''info'' w2))
          | _ \<Rightarrow>
              (Redirect Connections_my_connections,
               flash ''Connection not found.'' ''danger'' w1))"

definition remove_connection :: "nat \<Rightarrow> session \<Rightarrow> world \<Rightarrow> response \<times> world" where
  "remove_connection connection_id s w = login_required (remove_connection_body connection_id) s w"

definition sql_pending_connection_by_id :: "nat \<Rightarrow> connection_row statement" where
  "sql_pending_connection_by_id p1 =
     select_from [Connections] (\<lambda>d.
       by_key (\<lambda>c. c_id c = p1 \<and> c_status c = ''pending'') (connections d))"

text \<open>\<open>referrer\<close> is \<^verbatim>\<open>request.referrer\<close>; an empty one is falsy, as \<open>None\<close> is.\<close>

definition back_or :: "string option \<Rightarrow> endpoint \<Rightarrow> response" where
  "back_or referrer fallback =
     (case referrer of
        None \<Rightarrow> Redirect fallback
      | Some r \<Rightarrow> if r = [] then Redirect fallback else Redirect (Referrer r))"

definition cancel_request_body :: "nat \<Rightarrow> string option \<Rightarrow> nat \<Rightarrow> world \<Rightarrow> response \<times> world" where
  "cancel_request_body connection_id referrer uid w =
     propagate (execute_query (sql_pending_connection_by_id connection_id) True False False w)
       (\<lambda>connection w1.
          case connection of
            Some (Row c) \<Rightarrow>
              if c_sender_id c \<noteq> uid then
                (Redirect Connections_incoming_requests,
                 flash ''You are not authorized to cancel this request.'' ''danger'' w1)
              else
                propagate (execute_query (sql_delete_connection connection_id)
                             False False True w1)
                  (\<lambda>_ w2.
                     (back_or referrer Connections_incoming_requests,
                      flash ''Connection request cancelled.'' ''info'' w2))
          | _ \<Rightarrow>
              (Redirect Connections_incoming_requests,
               flash ''Pending request not found.'' ''danger'' w1))"

definition cancel_request :: "nat \<Rightarrow> string option \<Rightarrow> session \<Rightarrow> world \<Rightarrow> response \<times> world" where
  "cancel_request connection_id referrer s w =
     login_required (cancel_request_body connection_id referrer) s w"

section \<open>Events (\<^verbatim>\<open>events/routes.py\<close>)\<close>

definition sql_event_by_id :: "nat \<Rightarrow> event_row statement" where
  "sql_event_by_id p1 = select_from [Events] (\<lambda>d. by_key (\<lambda>e. e_id e = p1) (events d))"

definition sql_registration_of :: "nat \<Rightarrow> nat \<Rightarrow> unit statement" where
  "sql_registration_of p1 p2 =
     select_from [EventRegistrations] (\<lambda>d.
       map (\<lambda>r. ()) (filter (\<lambda>r. r_user_id r = p1 \<and> r_event_id r = p2) (event_registrations d)))"

definition sql_count_registrations :: "nat \<Rightarrow> nat statement" where
  "sql_count_registrations p1 =
     select_from [EventRegistrations] (\<lambda>d.
       [length (filter (\<lambda>r. r_event_id r = p1) (event_registrations d))])"

definition sql_insert_registration :: "nat \<Rightarrow> nat \<Rightarrow> nat \<Rightarrow> unit statement" where
  "sql_insert_registration p1 p2 t =
     insert_into EventRegistrations (\<lambda>i d.
       d\<lparr>event_registrations := event_registrations d @
            [\<lparr>r_id = i, r_user_id = p1, r_event_id = p2, r_registered_at = t\<rparr>]\<rparr>)"

definition sql_delete_registration :: "nat \<Rightarrow> nat \<Rightarrow> unit statement" where
  "sql_delete_registration p1 p2 =
     modify Delete EventRegistrations (\<lambda>d.
       d\<lparr>event_registrations :=
           filter (\<lambda>r. \<not> (r_user_id r = p1 \<and> r_event_id r = p2)) (event_registrations d)\<rparr>)"

text \<open>
  The capacity check of \<^verbatim>\<open>register\<close>: the count is asked for only when
  \<^verbatim>\<open>event.get('max_participants')\<close> is truthy, that is neither \<^verbatim>\<open>None\<close> nor 0, and
  the event is full when the count came back and is at least \<^verbatim>\<open>max_participants\<close>.
\<close>

definition already_full :: "event_row \<Rightarrow> nat \<Rightarrow> world \<Rightarrow> bool reply \<times> world" where
  "already_full event ident w =
     (case e_max_participants event of
        None \<Rightarrow> (Returned False, w)
      | Some mx \<Rightarrow>
          if mx = 0 then (Returned False, w)
          else
            (case execute_query (sql_count_registrations ident) True False False w
             of (reg_count, w1) \<Rightarrow>
               (map_reply (\<lambda>c. case c of Some (Row n) \<Rightarrow> mx \<le> int n | _ \<Rightarrow> False) reg_count,
                w1)))"

definition quoted :: "string \<Rightarrow> string" where
  "quoted s = [CHR 0x22] @ s @ [CHR 0x22]"

definition register_body :: "nat \<Rightarrow> nat \<Rightarrow> world \<Rightarrow> response \<times> world" where
  "register_body ident uid w =
     propagate (execute_query (sql_event_by_id ident) True False False w) (\<lambda>event w1.
       case event of
         Some (Row ev) \<Rightarrow>
           propagate (execute_query (sql_registration_of uid ident) True False False w1)
             (\<lambda>existing w2.
                if truthy existing then
                  (Redirect (Events_view_event ident),
                   flash ''You are already registered for this event.'' ''info'' w2)
                else
                  propagate (already_full ev ident w2) (\<lambda>full w3.
                    if full then
                      (Redirect (Events_view_event ident),
                       flash ''This event is already full.'' ''warning'' w3)
                    else
                      propagate (execute_query (sql_insert_registration uid ident (now w3))
                                   False False True w3)
                        (\<lambda>result w4.
                           (Redirect (Events_view_event ident),
                            if result \<noteq> None then
                              try_create_notification uid
                                (''You have registered for '' @ quoted (e_title ev) @ ''.'')
                                ''event''
                                (flash (''Successfully registered for '' @ quoted (e_title ev)
                                         @ ''!'') ''success'' w4)
                            else
                              flash ''Failed to register. Please try again.'' ''danger'' w4))))
       | _ \<Rightarrow> (Redirect Events_list_events, flash ''Event not found.'' ''danger'' w1))"

definition register :: "nat \<Rightarrow> session \<Rightarrow> world \<Rightarrow> response \<times> world" where
  "register ident s w = login_required (register_body ident) s w"

definition unregister_body :: "nat \<Rightarrow> nat \<Rightarrow> world \<Rightarrow> response \<times> world" where
  "unregister_body ident uid w =
     propagate (execute_query (sql_registration_of uid ident) True False False w)
       (\<lambda>existing w1.
          if \<not> truthy existing then
            (Redirect (Events_view_event ident),
             flash ''You are not registered for this event.'' ''warning'' w1)
          else
            propagate (execute_query (sql_delete_registration uid ident) False False True w1)
              (\<lambda>_ w2.
                 (Redirect (Events_view_event ident),
                  flash ''You have unregistered from this event.'' ''info'' w2)))"

definition unregister :: "nat \<Rightarrow> session \<Rightarrow> world \<Rightarrow> response \<times> world" where
  "unregister ident s w = login_required (unregister_body ident) s w"

section \<open>Opportunities (\<^verbatim>\<open>opportunities/routes.py\<close>)\<close>

text \<open>
  What Flask-WTF reports for the submitted \<^verbatim>\<open>ApplicationForm\<close>: the result of
  \<^verbatim>\<open>validate_on_submit\<close> and the messages in \<^verbatim>\<open>form.errors\<close>.
\<close>

record application_form =
  validate_on_submit :: bool
  form_errors :: "string list"

function str_nat :: "nat \<Rightarrow> string" where
  "str_nat n = (if n < 10 then [''0123456789'' ! n]
                else str_nat (n div 10) @ [''0123456789'' ! (n mod 10)])"
  by pat_completeness auto
termination
  by (relation "measure id") auto

declare str_nat.simps [simp del]

definition sql_opportunity_by_id :: "nat \<Rightarrow> opportunity_row statement" where
  "sql_opportunity_by_id p1 =
     select_from [Opportunities] (\<lambda>d. by_key (\<lambda>opp. o_id opp = p1) (opportunities d))"

definition sql_application_of :: "nat \<Rightarrow> nat \<Rightarrow> nat statement" where
  "sql_application_of p1 p2 =
     select_from [Applications] (\<lambda>d.
       map a_id (filter (\<lambda>a. a_user_id a = p1 \<and> a_opportunity_id a = p2) (applications d)))"

definition sql_insert_application :: "nat \<Rightarrow> nat \<Rightarrow> string \<Rightarrow> nat \<Rightarrow> unit statement" where
  "sql_insert_application p1 p2 p3 t =
     insert_into Applications (\<lambda>i d.
       d\<lparr>applications := applications d @
            [\<lparr>a_id = i, a_user_id = p1, a_opportunity_id = p2, a_resume_file = p3,
              a_status = ''pending'', a_applied_at = t\<rparr>]\<rparr>)"

definition save_file :: "string \<Rightarrow> world \<Rightarrow> world" where
  "save_file name w = w\<lparr>files := List.insert name (files w)\<rparr>"

definition remove_file :: "string \<Rightarrow> world \<Rightarrow> world" where
  "remove_file name w = w\<lparr>files := removeAll name (files w)\<rparr>"

text \<open>
  The resume is stored under the upload folder's \<^verbatim>\<open>resumes\<close> directory; a file is known
  by its name there. \<^verbatim>\<open>time.time()\<close> is read from the same clock as \<^verbatim>\<open>NOW()\<close>.
\<close>

definition apply_body :: "nat \<Rightarrow> application_form \<Rightarrow> nat \<Rightarrow> world \<Rightarrow> response \<times> world" where
  "apply_body ident form uid w =
     propagate (execute_query (sql_opportunity_by_id ident) True False False w)
       (\<lambda>opportunity w1.
          case opportunity of
            Some (Row opp) \<Rightarrow>
              propagate (execute_query (sql_application_of uid ident) True False False w1)
                (\<lambda>existing w2.
                   if truthy existing then
                     (Redirect (Opportunities_view_opportunity ident),
                      flash ''You have already applied to this opportunity.'' ''warning'' w2)
                   else if validate_on_submit form then
                     (let filename = ''app_'' @ str_nat uid @ ''_'' @ str_nat ident @ ''_''
                                       @ str_nat (now w2) @ ''.pdf'';
                          w3 = save_file filename w2
                      in
                      propagate (execute_query
                                   (sql_insert_application uid ident filename (now w3))
                                   False False True w3)
                        (\<lambda>result w4.
                           (Redirect (Opportunities_view_opportunity ident),
                            if result \<noteq> None then
                              try_create_notification uid
                                (''Your application for '' @ quoted (o_title opp)
                                   @ '' has been submitted.'')
                                ''opportunity''
                                (flash (''Application submitted successfully for ''
                                          @ quoted (o_title opp) @ ''!'') ''success'' w4)
                            else
                              remove_file filename
                                (flash ''Failed to submit application. Please try again.''
                                   ''danger'' w4))))
                   else
                     (Redirect (Opportunities_view_opportunity ident),
                      fold (\<lambda>e. flash e ''danger'') (form_errors form) w2))
          | _ \<Rightarrow>
              (Redirect Opportunities_list_opportunities,
               flash ''Opportunity not found.'' ''danger'' w1))"






section \<open>Likes (\<^verbatim>\<open>feed/routes.py\<close>)\<close>

definition sql_like_of :: "nat \<Rightarrow> nat \<Rightarrow> like_row statement" where
  "sql_like_of p1 p2 =
     select_from [Likes] (\<lambda>d. filter (\<lambda>l. l_user_id l = p1 \<and> l_post_id l = p2) (likes d))"

definition sql_delete_like :: "nat \<Rightarrow> nat \<Rightarrow> unit statement" where
  "sql_delete_like p1 p2 =
     modify Delete Likes (\<lambda>d.
       d\<lparr>likes := filter (\<lambda>l. \<not> (l_user_id l = p1 \<and> l_post_id l = p2)) (likes d)\<rparr>)"

definition sql_insert_like :: "nat \<Rightarrow> nat \<Rightarrow> nat \<Rightarrow> unit statement" where
  "sql_insert_like p1 p2 t =
     insert_into Likes (\<lambda>i d.
       d\<lparr>likes := likes d @
            [\<lparr>l_id = i, l_user_id = p1, l_post_id = p2, l_created_at = t\<rparr>]\<rparr>)"

definition like_post_body :: "nat \<Rightarrow> string option \<Rightarrow> nat \<Rightarrow> world \<Rightarrow> response \<times> world" where
  "like_post_body post_id referrer uid w =
     propagate (execute_query (sql_like_of uid post_id) True False False w)
       (\<lambda>existing_like w1.
          propagate
            (if truthy existing_like
             then execute_query (sql_delete_like uid post_id) False False True w1
             else execute_query (sql_insert_like uid post_id (now w1)) False False True w1)
            (\<lambda>_ w2. (back_or referrer Feed_global_feed, w2)))"



section \<open>Vocabulary of the properties\<close>

text \<open>
  The fault the driver shows during the \<open>k\<close>-th \<^verbatim>\<open>execute_query\<close> call from now, counted
  from 0.
\<close>

definition fault_at :: "world \<Rightarrow> nat \<Rightarrow> fault" where
  "fault_at w k = (case drop k (faults w) of [] \<Rightarrow> NoFault | f # _ \<Rightarrow> f)"

text \<open>
  Whether a call with the given flags reaches the driver call that the fault makes raise:
  executing always, fetching when a fetch was asked for, committing when the commit
  branch is the one taken.
\<close>

definition raises_error :: "fault \<Rightarrow> bool \<Rightarrow> bool \<Rightarrow> bool \<Rightarrow> bool" where
  "raises_error f fetch_one fetch_all commit =
     (f = ExecuteError \<or> (f = FetchError \<and> (fetch_one \<or> fetch_all))
      \<or> (f = CommitError \<and> commit \<and> \<not> fetch_one \<and> \<not> fetch_all))"

text \<open>
  The fault makes a fetching call, respectively a committing call, return \<^verbatim>\<open>None\<close>:
  the connection is not established, or the driver raises \<^verbatim>\<open>Error\<close> on the way.
\<close>

definition lookup_fails :: "fault \<Rightarrow> bool" where
  "lookup_fails f = (f = ConnectError \<or> f = ExecuteError \<or> f = FetchError)"

definition write_fails :: "fault \<Rightarrow> bool" where
  "write_fails f = (f = ConnectError \<or> f = ExecuteError \<or> f = CommitError)"

text \<open>The database answers every query of the request.\<close>

definition no_faults :: "world \<Rightarrow> bool" where
  "no_faults w = list_all (\<lambda>f. f = NoFault) (faults w)"

text \<open>The driver calls made between two worlds of one request.\<close>

definition new_calls :: "world \<Rightarrow> world \<Rightarrow> driver_call list" where
  "new_calls w w' = drop (length (calls w)) (calls w')"

fun touches :: "table \<Rightarrow> driver_call \<Rightarrow> bool" where
  "touches t (Execute k ts) = (t \<in> set ts)"
| "touches t _ = False"

text \<open>
  The accepted connections between \<open>u\<close> and \<open>p\<close>, in either direction: the rows the
  query of \<^verbatim>\<open>is_connected\<close> selects.
\<close>

definition accepted_between :: "database \<Rightarrow> nat \<Rightarrow> nat \<Rightarrow> connection_row list" where
  "accepted_between d u p =
     filter (\<lambda>c. c_status c = ''accepted''
               \<and> ((c_sender_id c = u \<and> c_receiver_id c = p)
                  \<or> (c_sender_id c = p \<and> c_receiver_id c = u))) (connections d)"

definition accepted_connection :: "database \<Rightarrow> nat \<Rightarrow> nat \<Rightarrow> bool" where
  "accepted_connection d u p =
     list_ex (\<lambda>c. c_status c = ''accepted''
                \<and> ((c_sender_id c = u \<and> c_receiver_id c = p)
                   \<or> (c_sender_id c = p \<and> c_receiver_id c = u))) (connections d)"

text \<open>The view rendered the conversation page.\<close>

fun renders_conversation :: "response \<Rightarrow> bool" where
  "renders_conversation (Render_conversation p ms u) = True"
| "renders_conversation _ = False"

text \<open>
  The guarded \<^verbatim>\<open>create_notification\<close> call stores its row: the block is not left
  before the call, and the fault the driver shows then does not stop a committing call.
\<close>

definition notification_stored :: "interruption \<Rightarrow> fault \<Rightarrow> bool" where
  "notification_stored i f = (i \<noteq> ExceptionBeforeCall \<and> \<not> write_fails f)"

text \<open>The row \<^verbatim>\<open>create_notification\<close> inserts, with the identifier the database gives it.\<close>

definition new_notification :: "nat \<Rightarrow> nat \<Rightarrow> string \<Rightarrow> string \<Rightarrow> nat \<Rightarrow> notification_row" where
  "new_notification i uid msg ty t =
     \<lparr>n_id = i, n_user_id = uid, n_message = msg, n_type = ty, n_is_read = False,
      n_created_at = t\<rparr>"

text \<open>
  The request \<open>cid\<close>, that is the row the lookup by identifier returns, is addressed to
  \<open>u\<close> and still pending.
\<close>

definition pending_request_for :: "database \<Rightarrow> nat \<Rightarrow> nat \<Rightarrow> bool" where
  "pending_request_for d cid u =
     (case find (\<lambda>c. c_id c = cid) (connections d) of
        None \<Rightarrow> False
      | Some c \<Rightarrow> c_receiver_id c = u \<and> c_status c = ''pending'')"

text \<open>The messages with which \<^verbatim>\<open>respond_request\<close> refuses.\<close>

definition respond_request_refusals :: "(string \<times> string) list" where
  "respond_request_refusals =
     [(''Invalid action.'', ''danger''),
      (''Connection request not found.'', ''danger''),
      (''You are not authorized to respond to this request.'', ''danger''),
      (''This request has already been processed.'', ''info'')]"



text \<open>What the two statements of \<^verbatim>\<open>respond_request\<close> do to the connections table.\<close>

definition accepted_rows :: "nat \<Rightarrow> connection_row list \<Rightarrow> connection_row list" where
  "accepted_rows cid cs = map (\<lambda>c. if c_id c = cid then c\<lparr>c_status := ''accepted''\<rparr> else c) cs"

definition deleted_rows :: "nat \<Rightarrow> connection_row list \<Rightarrow> connection_row list" where
  "deleted_rows cid cs = filter (\<lambda>c. c_id c \<noteq> cid) cs"


text \<open>The rows that join \<open>u\<close> and \<open>t\<close>, in either direction and whatever their status:
  the rows the lookup of \<^verbatim>\<open>send_request\<close> selects.\<close>

definition rows_between :: "database \<Rightarrow> nat \<Rightarrow> nat \<Rightarrow> connection_row list" where
  "rows_between d u t =
     filter (\<lambda>c. (c_sender_id c = u \<and> c_receiver_id c = t)
               \<or> (c_sender_id c = t \<and> c_receiver_id c = u)) (connections d)"

text \<open>The row \<^verbatim>\<open>send_request\<close> inserts, and what it flashes when it finds a row.\<close>

definition new_request :: "nat \<Rightarrow> nat \<Rightarrow> nat \<Rightarrow> nat \<Rightarrow> connection_row" where
  "new_request i u t time =
     \<lparr>c_id = i, c_sender_id = u, c_receiver_id = t, c_status = ''pending'',
      c_created_at = time\<rparr>"




text \<open>
  The worlds reached from an empty connections table by the four operations on
  connections, called with any arguments in any session, with anything happening in
  between that leaves the connections table alone and gives no identifier back (other
  requests, the clock, the faults to come).
\<close>

inductive reachable :: "world \<Rightarrow> bool" where
  start: "connections (db w) = [] \<Longrightarrow> reachable w"
| elsewhere: "reachable w \<Longrightarrow> connections (db w') = connections (db w)
    \<Longrightarrow> auto_increment w Connections \<le> auto_increment w' Connections \<Longrightarrow> reachable w'"
| by_send_request: "reachable w \<Longrightarrow> reachable (snd (send_request target s w))"
| by_respond_request: "reachable w \<Longrightarrow> reachable (snd (respond_request cid action s w))"
| by_remove_connection: "reachable w \<Longrightarrow> reachable (snd (remove_connection cid s w))"
| by_cancel_request: "reachable w \<Longrightarrow> reachable (snd (cancel_request cid referrer s w))"

text \<open>The row \<^verbatim>\<open>send_message\<close> inserts.\<close>

definition new_message :: "nat \<Rightarrow> nat \<Rightarrow> nat \<Rightarrow> pystr \<Rightarrow> nat \<Rightarrow> message_row" where
  "new_message i u p text time =
     \<lparr>m_id = i, m_sender_id = u, m_receiver_id = p, m_message = text, m_created_at = time\<rparr>"

text \<open>\<^verbatim>\<open>request.form.get('message', '').strip()\<close>\<close>

definition message_text :: "pystr option \<Rightarrow> pystr" where
  "message_text m = strip (case m of None \<Rightarrow> [] | Some x \<Rightarrow> x)"

text \<open>The row \<^verbatim>\<open>register\<close> inserts.\<close>

definition new_registration :: "nat \<Rightarrow> nat \<Rightarrow> nat \<Rightarrow> nat \<Rightarrow> registration_row" where
  "new_registration i u ident time =
     \<lparr>r_id = i, r_user_id = u, r_event_id = ident, r_registered_at = time\<rparr>"

text \<open>The event a lookup by identifier returns, whether \<open>u\<close> is registered for it, and
  the number of its registrations.\<close>

definition event_of :: "database \<Rightarrow> nat \<Rightarrow> event_row option" where
  "event_of d ident = find (\<lambda>e. e_id e = ident) (events d)"

definition registered :: "database \<Rightarrow> nat \<Rightarrow> nat \<Rightarrow> bool" where
  "registered d u ident =
     list_ex (\<lambda>r. r_user_id r = u \<and> r_event_id r = ident) (event_registrations d)"

definition registration_count :: "database \<Rightarrow> nat \<Rightarrow> nat" where
  "registration_count d ident =
     length (filter (\<lambda>r. r_event_id r = ident) (event_registrations d))"

text \<open>
  \<^verbatim>\<open>register\<close> asks for the number of registrations when the event's
  \<^verbatim>\<open>max_participants\<close> is neither \<^verbatim>\<open>None\<close> nor 0; the limit it then compares with.
\<close>

definition capacity_checked :: "event_row \<Rightarrow> bool" where
  "capacity_checked ev =
     (case e_max_participants ev of None \<Rightarrow> False | Some mx \<Rightarrow> mx \<noteq> 0)"

definition capacity :: "event_row \<Rightarrow> int" where
  "capacity ev = (case e_max_participants ev of None \<Rightarrow> 0 | Some mx \<Rightarrow> mx)"

text \<open>
  The unread counts as the specification words them. The code keeps no read state for
  chat messages; a message counts as read by its receiver once the conversation view
  has shown it to them. \<open>seen\<close> are the identifiers of the messages shown so far.
\<close>

fun shown_ids :: "response \<Rightarrow> nat list" where
  "shown_ids (Render_conversation p ms u) = map (\<lambda>r. m_id (sm_message r)) ms"
| "shown_ids _ = []"

definition spec_unread_from :: "nat list \<Rightarrow> database \<Rightarrow> nat \<Rightarrow> nat \<Rightarrow> nat" where
  "spec_unread_from seen d u partner =
     length (filter (\<lambda>m. m_sender_id m = partner \<and> m_receiver_id m = u \<and> m_id m \<notin> set seen)
               (messages d))"

definition spec_unread_received :: "nat list \<Rightarrow> database \<Rightarrow> nat \<Rightarrow> nat" where
  "spec_unread_received seen d u =
     length (filter (\<lambda>m. m_receiver_id m = u \<and> m_id m \<notin> set seen) (messages d))"

text \<open>The opportunity a lookup by identifier returns; the applications of \<open>u\<close> for it,
  which are the rows the lookup of \<^verbatim>\<open>apply\<close> selects.\<close>

definition opportunity_of :: "database \<Rightarrow> nat \<Rightarrow> opportunity_row option" where
  "opportunity_of d ident = find (\<lambda>opp. o_id opp = ident) (opportunities d)"











definition without_like :: "nat \<Rightarrow> nat \<Rightarrow> like_row list \<Rightarrow> like_row list" where
  "without_like u post ls = filter (\<lambda>l. \<not> (l_user_id l = u \<and> l_post_id l = post)) ls"

section \<open>Example states\<close>

text \<open>
  An empty database whose tables have generated identifiers before, a world without
  faults at time 7, Alice's session, and the world in which the next commit fails.
\<close>

definition db0 :: database where
  "db0 = \<lparr>users = [], connections = [], messages = [], notifications = [], likes = [],
          events = [], event_registrations = [], opportunities = [], applications = []\<rparr>"

definition next_ids :: "table \<Rightarrow> nat" where
  "next_ids t = (case t of Connections \<Rightarrow> 7 | Messages \<Rightarrow> 9 | Notifications \<Rightarrow> 2
                 | Likes \<Rightarrow> 4 | EventRegistrations \<Rightarrow> 4 | Applications \<Rightarrow> 32 | _ \<Rightarrow> 50)"

definition world0 :: world where
  "world0 = \<lparr>db = db0, auto_increment = next_ids, files = [], faults = [],
             interrupt = NoException, now = 7, calls = [], flashes = []\<rparr>"

definition alice :: session where
  "alice = \<lparr>user_id = Some 11, user_name = Some ''Alice''\<rparr>"

definition commit_fails :: world where
  "commit_fails = world0\<lparr>faults := [CommitError]\<rparr>"

text \<open>Alice (11) and Bob (12) are connected; Bob has sent Alice one message.\<close>

definition db1 :: database where
  "db1 = db0\<lparr>
     users := [\<lparr>u_id = 11, u_full_name = ''Alice'', u_profile_pic = None\<rparr>,
               \<lparr>u_id = 12, u_full_name = ''Bob'', u_profile_pic = None\<rparr>],
     connections := [\<lparr>c_id = 5, c_sender_id = 11, c_receiver_id = 12, c_status = ''accepted'',
                      c_created_at = 2\<rparr>],
     messages := [\<lparr>m_id = 8, m_sender_id = 12, m_receiver_id = 11, m_message = [104, 105],
                   m_created_at = 3\<rparr>]\<rparr>"

definition world1 :: world where
  "world1 = world0\<lparr>db := db1\<rparr>"

text \<open>Bob (12) has asked Alice (11) to connect; the request is pending.\<close>

definition db2 :: database where
  "db2 = db0\<lparr>connections := [\<lparr>c_id = 6, c_sender_id = 12, c_receiver_id = 11,
                                c_status = ''pending'', c_created_at = 2\<rparr>]\<rparr>"

definition world2 :: world where
  "world2 = world0\<lparr>db := db2\<rparr>"

definition bob :: session where
  "bob = \<lparr>user_id = Some 12, user_name = Some ''Bob''\<rparr>"

text \<open>
  In \<open>world1\<close>, the notification insert fails (the third query of the request), or the
  guarded block is left by an exception before it or after it.
\<close>

definition notification_fails :: world where
  "notification_fails = world1\<lparr>faults := [NoFault, NoFault, ExecuteError]\<rparr>"

definition notification_raises :: world where
  "notification_raises = world1\<lparr>interrupt := ExceptionBeforeCall\<rparr>"

text \<open>
  Three events: one with \<^verbatim>\<open>max_participants\<close> 0, one with room for one participant,
  which Bob (12) has taken, and one without a limit.
\<close>

definition db3 :: database where
  "db3 = db0\<lparr>
     events := [\<lparr>e_id = 4, e_title = ''Open day'', e_max_participants = Some 0\<rparr>,
                \<lparr>e_id = 5, e_title = ''Workshop'', e_max_participants = Some 1\<rparr>,
                \<lparr>e_id = 6, e_title = ''Talk'', e_max_participants = None\<rparr>],
     event_registrations := [\<lparr>r_id = 3, r_user_id = 12, r_event_id = 5,
                              r_registered_at = 2\<rparr>]\<rparr>"

definition world3 :: world where
  "world3 = world0\<lparr>db := db3\<rparr>"

text \<open>Carol (13) has a pending application for the opportunity 21.\<close>

definition db4 :: database where
  "db4 = db0\<lparr>
     opportunities := [\<lparr>o_id = 21, o_title = ''Engineer''\<rparr>],
     applications := [\<lparr>a_id = 31, a_user_id = 13, a_opportunity_id = 21,
                       a_resume_file = ''app_13_21_2.pdf'', a_status = ''pending'',
                       a_applied_at = 2\<rparr>]\<rparr>"

definition world4 :: world where
  "world4 = world0\<lparr>db := db4, files := [''app_13_21_2.pdf'']\<rparr>"

definition carol :: session where
  "carol = \<lparr>user_id = Some 13, user_name = Some ''Carol''\<rparr>"

definition resume_form :: application_form where
  "resume_form = \<lparr>validate_on_submit = True, form_errors = []\<rparr>"

text \<open>Alice (11) liked the post 40 at time 2.\<close>

definition db5 :: database where
  "db5 = db0\<lparr>likes := [\<lparr>l_id = 3, l_user_id = 11, l_post_id = 40, l_created_at = 2\<rparr>]\<rparr>"

definition world5 :: world where
  "world5 = world0\<lparr>db := db5\<rparr>"

text \<open>
  Alice (11) and Bob (12) each sent the other a request, the second while the lookup of
  \<^verbatim>\<open>send_request\<close> failed, and both requests were accepted: two accepted rows join them.
\<close>

definition db6 :: database where
  "db6 = db1\<lparr>
     connections := [\<lparr>c_id = 5, c_sender_id = 11, c_receiver_id = 12, c_status = ''accepted'',
                      c_created_at = 2\<rparr>,
                     \<lparr>c_id = 6, c_sender_id = 12, c_receiver_id = 11, c_status = ''accepted'',
                      c_created_at = 3\<rparr>]\<rparr>"

definition world6 :: world where
  "world6 = world0\<lparr>db := db6\<rparr>"

section \<open>Properties\<close>

subsection \<open>What one \<^verbatim>\<open>execute_query\<close> call does\<close>

lemma called_world [simp]:
  "db (called x w) = db w" "auto_increment (called x w) = auto_increment w"
  "files (called x w) = files w" "faults (called x w) = faults w"
  "interrupt (called x w) = interrupt w" "now (called x w) = now w"
  "calls (called x w) = calls w @ [x]" "flashes (called x w) = flashes w"
  by (simp_all add: called_def)

lemma on_error_world [simp]:
  "db (on_error c w) = db w" "auto_increment (on_error c w) = auto_increment w"
  "files (on_error c w) = files w" "faults (on_error c w) = faults w"
  "interrupt (on_error c w) = interrupt w" "now (on_error c w) = now w"
  "calls (on_error c w) = calls w @ (if c then [Rollback] else [])"
  "flashes (on_error c w) = flashes w"
  by (simp_all add: on_error_def)

lemma executed_world [simp]:
  "db (executed q w) = db w"
  "files (executed q w) = files w" "faults (executed q w) = faults w"
  "interrupt (executed q w) = interrupt w" "now (executed q w) = now w"
  "calls (executed q w) = calls w @ [Execute (kind q) (tables q)]"
  "flashes (executed q w) = flashes w"
  by (simp_all add: executed_def Let_def split: list.split)

lemma executed_auto_increment:
  "auto_increment (executed q w) =
     (case tables q of [] \<Rightarrow> auto_increment w
      | t # _ \<Rightarrow> if kind q = Insert then (auto_increment w)(t := Suc (auto_increment w t))
                 else auto_increment w)"
  by (simp add: executed_def Let_def split: list.split)

lemma get_db_connection_cases:
  "get_db_connection w =
     (if fault_at w 0 = ConnectError then (None, w\<lparr>faults := tl (faults w)\<rparr>)
      else (Some (fault_at w 0), called Connect (w\<lparr>faults := tl (faults w)\<rparr>)))"
  by (cases "faults w") (simp_all add: get_db_connection_def next_fault_def fault_at_def)

lemma try_block_world [simp]:
  "files (snd (snd (try_block q fo fa c f w))) = files w"
  "faults (snd (snd (try_block q fo fa c f w))) = faults w"
  "interrupt (snd (snd (try_block q fo fa c f w))) = interrupt w"
  "now (snd (snd (try_block q fo fa c f w))) = now w"
  "flashes (snd (snd (try_block q fo fa c f w))) = flashes w"
  by (simp_all add: try_block_def Let_def)

lemma finally_block_world [simp]:
  "db (snd (finally_block r)) = db (snd (snd r))"
  "auto_increment (snd (finally_block r)) = auto_increment (snd (snd r))"
  "files (snd (finally_block r)) = files (snd (snd r))"
  "faults (snd (finally_block r)) = faults (snd (snd r))"
  "interrupt (snd (finally_block r)) = interrupt (snd (snd r))"
  "now (snd (finally_block r)) = now (snd (snd r))"
  "flashes (snd (finally_block r)) = flashes (snd (snd r))"
  by (simp_all add: finally_block_def)

lemma execute_query_cases:
  "execute_query q fo fa c w =
     (if fault_at w 0 = ConnectError then (Returned None, w\<lparr>faults := tl (faults w)\<rparr>)
      else finally_block
             (try_block q fo fa c (fault_at w 0) (called Connect (w\<lparr>faults := tl (faults w)\<rparr>))))"
  by (simp add: execute_query_def get_db_connection_cases)

lemma eq_flashes [simp]: "flashes (snd (execute_query q fo fa c w)) = flashes w"
  by (simp add: execute_query_cases)
lemma eq_files [simp]: "files (snd (execute_query q fo fa c w)) = files w"
  by (simp add: execute_query_cases)
lemma eq_now [simp]: "now (snd (execute_query q fo fa c w)) = now w"
  by (simp add: execute_query_cases)
lemma eq_interrupt [simp]: "interrupt (snd (execute_query q fo fa c w)) = interrupt w"
  by (simp add: execute_query_cases)
lemma eq_faults [simp]: "faults (snd (execute_query q fo fa c w)) = tl (faults w)"
  by (simp add: execute_query_cases)

lemmas eq_defs = execute_query_cases try_block_def finally_block_def Let_def
  lookup_fails_def write_fails_def generated_id_def fetchone_def executed_auto_increment

lemma fault_at_tl: "faults w' = tl (faults w) \<Longrightarrow> fault_at w' k = fault_at w (Suc k)"
  by (simp add: fault_at_def drop_Suc)

lemma eq_fault_at [simp]: "fault_at (snd (execute_query q fo fa c w)) k = fault_at w (Suc k)"
  by (simp add: fault_at_tl)

lemma run_select [simp]: "run (select_from ts g) i d = (g d, d, 0)"
  by (simp add: select_from_def)
lemma kind_select [simp]: "kind (select_from ts g) = Select"
  by (simp add: select_from_def)
lemma tables_select [simp]: "tables (select_from ts g) = ts"
  by (simp add: select_from_def)
lemma run_insert [simp]: "run (insert_into t g) i d = ([], g i d, i)"
  by (simp add: insert_into_def)
lemma kind_insert [simp]: "kind (insert_into t g) = Insert"
  by (simp add: insert_into_def)
lemma tables_insert [simp]: "tables (insert_into t g) = [t]"
  by (simp add: insert_into_def)
lemma run_modify [simp]: "run (modify k t g) i d = ([], g d, 0)"
  by (simp add: modify_def)
lemma kind_modify [simp]: "kind (modify k t g) = k"
  by (simp add: modify_def)
lemma tables_modify [simp]: "tables (modify k t g) = [t]"
  by (simp add: modify_def)

text \<open>A lookup with \<^verbatim>\<open>fetch_one\<close>.\<close>

lemma lookup_result:
  "fst (execute_query (select_from ts g) True False False w) =
     (if lookup_fails (fault_at w 0) then Returned None
      else case g (db w) of [] \<Rightarrow> Returned None | [r] \<Rightarrow> Returned (Some (Row r))
           | _ \<Rightarrow> Raised)"
  by (simp add: eq_defs split: list.split)

lemma lookup_db [simp]: "db (snd (execute_query (select_from ts g) fo fa c w)) = db w"
  by (simp add: eq_defs split: list.split)

lemma lookup_auto_increment [simp]:
  "auto_increment (snd (execute_query (select_from ts g) fo fa c w)) = auto_increment w"
  by (simp add: eq_defs split: list.split)

text \<open>A lookup with \<^verbatim>\<open>fetch_all\<close>.\<close>

lemma select_all_result:
  "fst (execute_query (select_from ts g) False True False w) =
     Returned (if lookup_fails (fault_at w 0) then None else Some (RowList (g (db w))))"
  by (simp add: eq_defs split: list.split)

text \<open>An insert, update or delete with \<^verbatim>\<open>commit\<close>.\<close>

lemma insert_result:
  "fst (execute_query (insert_into t g) False False True w) =
     Returned (if write_fails (fault_at w 0) then None
               else Some (LastRowId (auto_increment w t)))"
  by (simp add: eq_defs split: list.split)

lemma insert_db:
  "db (snd (execute_query (insert_into t g) False False True w)) =
     (if write_fails (fault_at w 0) then db w else g (auto_increment w t) (db w))"
  by (simp add: eq_defs split: list.split)

lemma insert_auto_increment:
  "auto_increment (snd (execute_query (insert_into t g) False False True w)) =
     (if fault_at w 0 = ConnectError \<or> fault_at w 0 = ExecuteError then auto_increment w
      else (auto_increment w)(t := Suc (auto_increment w t)))"
  by (simp add: eq_defs split: list.split)

lemma modify_result:
  "fst (execute_query (modify k t g) False False True w) =
     Returned (if write_fails (fault_at w 0) then None else Some (LastRowId 0))"
  by (simp add: eq_defs split: list.split)

lemma modify_db:
  "db (snd (execute_query (modify k t g) False False True w)) =
     (if write_fails (fault_at w 0) then db w else g (db w))"
  by (simp add: eq_defs split: list.split)

lemma modify_auto_increment [simp]:
  "k \<noteq> Insert \<Longrightarrow>
   auto_increment (snd (execute_query (modify k t g) False False True w)) = auto_increment w"
  by (simp add: eq_defs split: list.split)

text \<open>The statements a call runs.\<close>

lemma eq_touches:
  "list_ex (touches t) (new_calls w (snd (execute_query q fo fa c w))) =
     (fault_at w 0 \<noteq> ConnectError \<and> fault_at w 0 \<noteq> ExecuteError \<and> t \<in> set (tables q))"
  by (auto simp add: eq_defs new_calls_def split: list.split)

lemma eq_calls_prefix:
  "\<exists>cs. calls (snd (execute_query q fo fa c w)) = calls w @ cs"
  by (simp add: eq_defs split: list.split)


lemma generated_id_connect [simp]:
  "generated_id q (called x (w\<lparr>faults := fs\<rparr>)) = generated_id q w"
  by (simp add: generated_id_def split: list.split)

text \<open>
  Every call of \<^verbatim>\<open>execute_query\<close>, by the fault the driver shows: when the connection
  cannot be established the call returns \<^verbatim>\<open>None\<close> and nothing else happens; when the
  driver raises \<^verbatim>\<open>Error\<close> while the statement is executed, fetched or committed, the
  call returns \<^verbatim>\<open>None\<close>, nothing is committed and a call that asked for a commit rolls
  back; otherwise a \<^verbatim>\<open>fetch_all\<close> call returns the rows, a committing call the
  cursor's \<^verbatim>\<open>lastrowid\<close> with the statement's effect committed, and a \<^verbatim>\<open>fetch_one\<close>
  call \<^verbatim>\<open>None\<close> for no row and the row when there is one; when there are more, the
  call does not return.
\<close>

lemma execute_query_outcomes:
  fixes query :: "'r statement"
  assumes "run query (generated_id query w) (db w) = (rows, d', rowid)"
  shows
    "(fault_at w 0 = ConnectError \<longrightarrow>
        execute_query query fetch_one fetch_all commit w
          = (Returned None, w\<lparr>faults := tl (faults w)\<rparr>))
     \<and> (raises_error (fault_at w 0) fetch_one fetch_all commit \<longrightarrow>
          fst (execute_query query fetch_one fetch_all commit w) = Returned None
          \<and> db (snd (execute_query query fetch_one fetch_all commit w)) = db w
          \<and> \<not> list_ex (\<lambda>x. x = Commit)
                (new_calls w (snd (execute_query query fetch_one fetch_all commit w)))
          \<and> (commit \<longrightarrow> list_ex (\<lambda>x. x = Rollback)
                (new_calls w (snd (execute_query query fetch_one fetch_all commit w)))))
     \<and> (fault_at w 0 \<noteq> ConnectError
          \<and> \<not> raises_error (fault_at w 0) fetch_one fetch_all commit \<longrightarrow>
          (fetch_one \<longrightarrow>
             fst (execute_query query fetch_one fetch_all commit w)
               = (case rows of [] \<Rightarrow> Returned None | [r] \<Rightarrow> Returned (Some (Row r))
                  | _ \<Rightarrow> Raised))
          \<and> (\<not> fetch_one \<and> fetch_all \<longrightarrow>
               fst (execute_query query fetch_one fetch_all commit w)
                 = Returned (Some (RowList rows)))
          \<and> (\<not> fetch_one \<and> \<not> fetch_all \<and> commit \<and> rows = [] \<longrightarrow>
               fst (execute_query query fetch_one fetch_all commit w)
                 = Returned (Some (LastRowId rowid))
               \<and> db (snd (execute_query query fetch_one fetch_all commit w)) = d'))"
proof -
  let ?r = "execute_query query fetch_one fetch_all commit w"
  have connect: "fault_at w 0 = ConnectError \<longrightarrow> ?r = (Returned None, w\<lparr>faults := tl (faults w)\<rparr>)"
    by (simp add: execute_query_cases)
  have failed: "raises_error (fault_at w 0) fetch_one fetch_all commit \<longrightarrow>
      fst ?r = Returned None \<and> db (snd ?r) = db w
      \<and> \<not> list_ex (\<lambda>x. x = Commit) (new_calls w (snd ?r))
      \<and> (commit \<longrightarrow> list_ex (\<lambda>x. x = Rollback) (new_calls w (snd ?r)))"
    by (auto simp add: execute_query_cases try_block_def finally_block_def Let_def
        raises_error_def new_calls_def)
  have succeeded: "fault_at w 0 \<noteq> ConnectError
      \<and> \<not> raises_error (fault_at w 0) fetch_one fetch_all commit \<longrightarrow>
      (fetch_one \<longrightarrow> fst ?r = (case rows of [] \<Rightarrow> Returned None
                                   | [r] \<Rightarrow> Returned (Some (Row r)) | _ \<Rightarrow> Raised))
      \<and> (\<not> fetch_one \<and> fetch_all \<longrightarrow> fst ?r = Returned (Some (RowList rows)))
      \<and> (\<not> fetch_one \<and> \<not> fetch_all \<and> commit \<and> rows = [] \<longrightarrow>
           fst ?r = Returned (Some (LastRowId rowid)) \<and> db (snd ?r) = d')"
    using assms
    by (auto simp add: execute_query_cases try_block_def finally_block_def Let_def
        raises_error_def fetchone_def split: list.split)
  from connect failed succeeded show ?thesis by blast
qed

lemma flash_world [simp]:
  "db (flash msg cat w) = db w"
  "auto_increment (flash msg cat w) = auto_increment w"
  "files (flash msg cat w) = files w"
  "faults (flash msg cat w) = faults w"
  "interrupt (flash msg cat w) = interrupt w"
  "now (flash msg cat w) = now w"
  "calls (flash msg cat w) = calls w"
  "flashes (flash msg cat w) = flashes w @ [(msg, cat)]"
  "fault_at (flash msg cat w) k = fault_at w k"
  by (simp_all add: flash_def fault_at_def)

lemma world0_simps [simp]:
  "db world0 = db0" "auto_increment world0 = next_ids" "files world0 = []"
  "faults world0 = []" "interrupt world0 = NoException"
  "now world0 = 7" "calls world0 = []" "flashes world0 = []"
  by (simp_all add: world0_def)

lemma next_ids_simps [simp]:
  "next_ids Connections = 7" "next_ids Messages = 9" "next_ids Notifications = 2"
  "next_ids Likes = 4" "next_ids EventRegistrations = 4" "next_ids Applications = 32"
  by (simp_all add: next_ids_def)

lemma world1_simps [simp]:
  "db world1 = db1" "auto_increment world1 = next_ids" "files world1 = []"
  "faults world1 = []" "interrupt world1 = NoException"
  "now world1 = 7" "calls world1 = []" "flashes world1 = []"
  by (simp_all add: world1_def)

lemma world6_simps [simp]:
  "db world6 = db6" "auto_increment world6 = next_ids" "files world6 = []"
  "faults world6 = []" "interrupt world6 = NoException"
  "now world6 = 7" "calls world6 = []" "flashes world6 = []"
  by (simp_all add: world6_def)

lemma fault_at_no_faults [simp]: "faults w = [] \<Longrightarrow> fault_at w k = NoFault"
  by (simp add: fault_at_def)

lemma fails_NoFault [simp]: "\<not> lookup_fails NoFault" "\<not> write_fails NoFault"
  by (simp_all add: lookup_fails_def write_fails_def)

lemma alice_simps [simp]: "user_id alice = Some 11" "user_name alice = Some ''Alice''"
  by (simp_all add: alice_def)

lemma db6_accepted: "map c_id (accepted_between db6 11 12) = [5, 6]"
  by (simp add: accepted_between_def db6_def db1_def db0_def)

text \<open>
  Claim C2, at the lookup of \<^verbatim>\<open>is_connected\<close> where two accepted rows join the users:
  the statement selects both rows, \<^verbatim>\<open>fetchone\<close> takes the first, and
  \<^verbatim>\<open>execute_query\<close> does not return it: closing the cursor raises, the exception
  leaves the call and the connection stays open. With one row the call returns the row.
\<close>

theorem execute_query_raises_on_second_row:
  "fst (run (sql_accepted_connection 11 12 12 11) (generated_id (sql_accepted_connection 11 12 12 11) world6)
          (db world6)) = [5, 6]
   \<and> execute_query (sql_accepted_connection 11 12 12 11) True False False world6
       = (Raised, world6\<lparr>calls := [Connect, Execute Select [Connections], FetchOne]\<rparr>)
   \<and> fst (execute_query (sql_accepted_connection 11 12 12 11) True False False world1)
       = Returned (Some (Row 5))"
  by (simp add: execute_query_cases try_block_def finally_block_def Let_def fetchone_def
      sql_accepted_connection_def between_def db6_def db1_def db0_def called_def world6_def
      world1_def world0_def executed_def)


lemma propagate_Returned: "fst r = Returned x \<Longrightarrow> propagate r k = k x (snd r)"
  by (simp add: propagate_def)

lemma propagate_Raised: "fst r = Raised \<Longrightarrow> propagate r k = (Uncaught_InternalError, snd r)"
  by (simp add: propagate_def)

lemma filter_empty_list_ex: "(filter P xs = []) = (\<not> list_ex P xs)"
  by (induction xs) auto

subsection \<open>Notifications\<close>

lemma create_notification_world [simp]:
  "flashes (snd (create_notification uid msg ty w)) = flashes w"
  "files (snd (create_notification uid msg ty w)) = files w"
  "now (snd (create_notification uid msg ty w)) = now w"
  "interrupt (snd (create_notification uid msg ty w)) = interrupt w"
  "faults (snd (create_notification uid msg ty w)) = tl (faults w)"
  "fault_at (snd (create_notification uid msg ty w)) k = fault_at w (Suc k)"
  by (simp_all add: create_notification_def)

lemma create_notification_result:
  "fst (create_notification uid msg ty w) =
     Returned (if write_fails (fault_at w 0) then None
               else Some (LastRowId (auto_increment w Notifications)))"
  by (simp add: create_notification_def sql_insert_notification_def insert_result)

lemma create_notification_db:
  "db (snd (create_notification uid msg ty w)) =
     (if write_fails (fault_at w 0) then db w
      else (db w)\<lparr>notifications := notifications (db w) @
             [new_notification (auto_increment w Notifications) uid msg ty (now w)]\<rparr>)"
  by (simp add: create_notification_def sql_insert_notification_def insert_db
      new_notification_def)

lemma create_notification_auto_increment [simp]:
  "t \<noteq> Notifications \<Longrightarrow>
   auto_increment (snd (create_notification uid msg ty w)) t = auto_increment w t"
  by (simp add: create_notification_def sql_insert_notification_def insert_auto_increment)

lemma create_notification_touches:
  "t \<noteq> Notifications \<Longrightarrow>
   \<not> list_ex (touches t) (new_calls w (snd (create_notification uid msg ty w)))"
  by (simp add: create_notification_def sql_insert_notification_def eq_touches)

lemma try_create_notification_world [simp]:
  "flashes (try_create_notification uid msg ty w) = flashes w"
  "files (try_create_notification uid msg ty w) = files w"
  "now (try_create_notification uid msg ty w) = now w"
  "interrupt (try_create_notification uid msg ty w) = interrupt w"
  by (simp_all add: try_create_notification_def split: interruption.split)

lemma try_create_notification_db:
  "db (try_create_notification uid msg ty w) =
     (if notification_stored (interrupt w) (fault_at w 0)
      then (db w)\<lparr>notifications := notifications (db w) @
             [new_notification (auto_increment w Notifications) uid msg ty (now w)]\<rparr>
      else db w)"
  by (simp add: try_create_notification_def create_notification_db notification_stored_def
      split: interruption.split)

lemma try_create_notification_tables [simp]:
  "connections (db (try_create_notification uid msg ty w)) = connections (db w)"
  "messages (db (try_create_notification uid msg ty w)) = messages (db w)"
  "event_registrations (db (try_create_notification uid msg ty w)) = event_registrations (db w)"
  "applications (db (try_create_notification uid msg ty w)) = applications (db w)"
  "likes (db (try_create_notification uid msg ty w)) = likes (db w)"
  "users (db (try_create_notification uid msg ty w)) = users (db w)"
  "events (db (try_create_notification uid msg ty w)) = events (db w)"
  "opportunities (db (try_create_notification uid msg ty w)) = opportunities (db w)"
  by (simp_all add: try_create_notification_db)

lemma try_create_notification_auto_increment [simp]:
  "t \<noteq> Notifications \<Longrightarrow>
   auto_increment (try_create_notification uid msg ty w) t = auto_increment w t"
  by (simp add: try_create_notification_def split: interruption.split)

lemma try_create_notification_calls:
  "\<exists>cs. calls (try_create_notification uid msg ty w) = calls w @ cs
        \<and> \<not> list_ex (touches Messages) cs \<and> \<not> list_ex (touches Connections) cs"
proof (cases "interrupt w = ExceptionBeforeCall")
  case True
  then show ?thesis by (simp add: try_create_notification_def)
next
  case False
  obtain cs where cs: "calls (snd (create_notification uid msg ty w)) = calls w @ cs"
    using eq_calls_prefix unfolding create_notification_def by blast
  have "new_calls w (snd (create_notification uid msg ty w)) = cs"
    by (simp add: new_calls_def cs)
  with create_notification_touches [of Messages w uid msg ty]
    create_notification_touches [of Connections w uid msg ty]
  have "\<not> list_ex (touches Messages) cs \<and> \<not> list_ex (touches Connections) cs" by simp
  with cs False show ?thesis
    by (cases "interrupt w") (simp_all add: try_create_notification_def)
qed

subsection \<open>Chat\<close>

lemma accepted_between_sql:
  "filter (\<lambda>c. c_status c = ''accepted'' \<and> between (c_sender_id c) (c_receiver_id c) u p p u) cs
     = filter (\<lambda>c. c_status c = ''accepted''
               \<and> ((c_sender_id c = u \<and> c_receiver_id c = p)
                  \<or> (c_sender_id c = p \<and> c_receiver_id c = u))) cs"
  by (simp add: between_def)

lemma accepted_connection_rows: "accepted_connection d u p = (accepted_between d u p \<noteq> [])"
  by (simp add: accepted_connection_def accepted_between_def filter_empty_list_ex)

lemma is_connected_result:
  "fst (is_connected u p w) =
     (if lookup_fails (fault_at w 0) then Returned False
      else case accepted_between (db w) u p of [] \<Rightarrow> Returned False | [r] \<Rightarrow> Returned True
           | _ \<Rightarrow> Raised)"
  by (simp add: is_connected_def case_prod_beta lookup_result sql_accepted_connection_def
      accepted_between_sql accepted_between_def map_reply_def split: list.split)

lemma is_connected_world [simp]:
  "db (snd (is_connected u p w)) = db w"
  "auto_increment (snd (is_connected u p w)) = auto_increment w"
  "flashes (snd (is_connected u p w)) = flashes w"
  "files (snd (is_connected u p w)) = files w"
  "now (snd (is_connected u p w)) = now w"
  "interrupt (snd (is_connected u p w)) = interrupt w"
  "faults (snd (is_connected u p w)) = tl (faults w)"
  "fault_at (snd (is_connected u p w)) k = fault_at w (Suc k)"
  by (simp_all add: is_connected_def case_prod_beta sql_accepted_connection_def)

lemma is_connected_touches:
  "\<not> list_ex (touches Messages) (new_calls w (snd (is_connected u p w)))"
  by (simp add: is_connected_def case_prod_beta eq_touches sql_accepted_connection_def)

text \<open>
  For a logged-in user \<open>u\<close> and a target \<open>p\<close>: when \<open>p\<close> is \<open>u\<close> or no accepted
  connection joins them, \<^verbatim>\<open>conversation\<close> and \<^verbatim>\<open>send_message\<close> redirect to the chat
  list with a warning, leave the database as it is and run no statement on the messages
  table, whatever faults the driver shows.
\<close>

lemma conversation_refuses:
  assumes "p = u \<or> \<not> accepted_connection (db w) u p"
  shows "fst (conversation_body p u w) = Redirect Chat_chat_list
    \<and> flashes (snd (conversation_body p u w)) = flashes w @
           [(if p = u then ''You cannot chat with yourself.''
             else ''You can only chat with your connections.'', ''warning'')]
    \<and> db (snd (conversation_body p u w)) = db w
    \<and> \<not> list_ex (touches Messages) (new_calls w (snd (conversation_body p u w)))"
proof (cases "p = u")
  case True
  then show ?thesis by (simp add: conversation_body_def new_calls_def)
next
  case False
  with assms have "accepted_between (db w) u p = []" by (simp add: accepted_connection_rows)
  then have r: "fst (is_connected u p w) = Returned False" by (simp add: is_connected_result)
  have t: "new_calls w (flash a b (snd (is_connected u p w))) = new_calls w (snd (is_connected u p w))"
    for a b by (simp add: new_calls_def)
  from False show ?thesis
    by (simp add: conversation_body_def propagate_Returned [OF r] t is_connected_touches)
qed

lemma send_message_refuses:
  assumes "p = u \<or> \<not> accepted_connection (db w) u p"
  shows "fst (send_message_body p m s u w) = Redirect Chat_chat_list
    \<and> flashes (snd (send_message_body p m s u w)) = flashes w @
           [(if p = u then ''You cannot message yourself.''
             else ''You can only message your connections.'', ''warning'')]
    \<and> db (snd (send_message_body p m s u w)) = db w
    \<and> \<not> list_ex (touches Messages) (new_calls w (snd (send_message_body p m s u w)))"
proof (cases "p = u")
  case True
  then show ?thesis by (simp add: send_message_body_def new_calls_def)
next
  case False
  with assms have "accepted_between (db w) u p = []" by (simp add: accepted_connection_rows)
  then have r: "fst (is_connected u p w) = Returned False" by (simp add: is_connected_result)
  have t: "new_calls w (flash a b (snd (is_connected u p w))) = new_calls w (snd (is_connected u p w))"
    for a b by (simp add: new_calls_def)
  from False show ?thesis
    by (simp add: send_message_body_def propagate_Returned [OF r] t is_connected_touches)
qed

text \<open>
  So a view that renders the conversation, runs a statement on the messages table or
  changes that table had an accepted connection.
\<close>

lemma chat_only_when_connected:
  assumes "user_id s = Some u"
    and "renders_conversation (fst (conversation p s w))
         \<or> list_ex (touches Messages) (new_calls w (snd (conversation p s w)))
         \<or> list_ex (touches Messages) (new_calls w (snd (send_message p m s w)))
         \<or> messages (db (snd (send_message p m s w))) \<noteq> messages (db w)"
  shows "p \<noteq> u \<and> accepted_connection (db w) u p"
proof -
  have c: "conversation p s w = conversation_body p u w"
    and sm: "send_message p m s w = send_message_body p m s u w"
    using assms(1) by (simp_all add: conversation_def send_message_def login_required_def)
  show ?thesis
  proof (rule ccontr)
    assume "\<not> (p \<noteq> u \<and> accepted_connection (db w) u p)"
    then have h: "p = u \<or> \<not> accepted_connection (db w) u p" by blast
    from conversation_refuses [OF h, of] send_message_refuses [OF h, of m s]
      assms(2) [unfolded c sm]
    show False by auto
  qed
qed

text \<open>
  Where at most one accepted row joins the users, \<^verbatim>\<open>send_message\<close> with a text that is
  empty after trimming redirects with a warning, with the database unchanged and no
  statement on the messages table, whatever faults the driver shows.
\<close>

lemma send_message_empty:
  assumes "message_text m = []" and "length (accepted_between (db w) u p) \<le> 1"
  shows "db (snd (send_message_body p m s u w)) = db w
    \<and> \<not> list_ex (touches Messages) (new_calls w (snd (send_message_body p m s u w)))
    \<and> (\<exists>e msg. fst (send_message_body p m s u w) = Redirect e
          \<and> flashes (snd (send_message_body p m s u w)) = flashes w @ [(msg, ''warning'')])"
proof (cases "p = u \<or> \<not> accepted_connection (db w) u p")
  case True
  from send_message_refuses [OF True] show ?thesis by simp
next
  case False
  then obtain r where rows: "accepted_between (db w) u p = [r]"
    using assms(2) by (cases "accepted_between (db w) u p") (auto simp add: accepted_connection_rows)
  have t: "new_calls w (flash a b (snd (is_connected u p w))) = new_calls w (snd (is_connected u p w))"
    for a b by (simp add: new_calls_def)
  show ?thesis
  proof (cases "lookup_fails (fault_at w 0)")
    case True
    then have r: "fst (is_connected u p w) = Returned False" by (simp add: is_connected_result)
    from False show ?thesis
      by (simp add: send_message_body_def propagate_Returned [OF r] t is_connected_touches)
  next
    case f: False
    then have r: "fst (is_connected u p w) = Returned True"
      by (simp add: is_connected_result rows)
    from False assms(1) show ?thesis
      by (simp add: send_message_body_def propagate_Returned [OF r] t is_connected_touches
          message_text_def)
  qed
qed

text \<open>
  Claim C1, at a message that is empty after trimming, sent where two accepted rows
  join the users: \<^verbatim>\<open>send_message\<close> does not redirect with a warning. The lookup of
  \<^verbatim>\<open>is_connected\<close> raises, no handler catches the exception, and the request ends
  with it: nothing is flashed. (Nothing is inserted either.)
\<close>

theorem send_message_empty_text_raises:
  "map c_id (accepted_between (db world6) 11 12) = [5, 6]
   \<and> message_text (Some [32, 9]) = []
   \<and> fst (send_message 12 (Some [32, 9]) alice world6) = Uncaught_InternalError
   \<and> flashes (snd (send_message 12 (Some [32, 9]) alice world6)) = []
   \<and> db (snd (send_message 12 (Some [32, 9]) alice world6)) = db6"
proof -
  have rows: "\<exists>a b. accepted_between db6 11 12 = [a, b]"
    by (simp add: accepted_between_def db6_def db1_def db0_def)
  then have r: "fst (is_connected 11 12 world6) = Raised"
    by (auto simp add: is_connected_result)
  have e: "message_text (Some [32, 9]) = []"
    by (simp add: message_text_def strip_def isspace_def)
  show ?thesis
    by (simp add: db6_accepted e send_message_def login_required_def send_message_body_def
        propagate_Raised [OF r])
qed

subsection \<open>How a view goes on after a call\<close>

lemma propagate_lookup:
  "propagate (execute_query (select_from ts g) True False False w) k =
     (if lookup_fails (fault_at w 0)
      then k None (snd (execute_query (select_from ts g) True False False w))
      else case g (db w) of
             [] \<Rightarrow> k None (snd (execute_query (select_from ts g) True False False w))
           | [r] \<Rightarrow> k (Some (Row r)) (snd (execute_query (select_from ts g) True False False w))
           | _ \<Rightarrow> (Uncaught_InternalError,
                    snd (execute_query (select_from ts g) True False False w)))"
  by (simp add: propagate_def lookup_result split: list.split)

lemma by_key_cases: "by_key P xs = [] \<or> (\<exists>r. by_key P xs = [r])"
  by (simp add: by_key_def split: option.split)

lemma propagate_by_key:
  "propagate (execute_query (select_from ts (\<lambda>d. by_key P (f d))) True False False w) k =
     k (if lookup_fails (fault_at w 0) then None else map_option Row (find P (f (db w))))
       (snd (execute_query (select_from ts (\<lambda>d. by_key P (f d))) True False False w))"
  by (simp add: propagate_def lookup_result by_key_def split: option.split)

lemma propagate_select_all:
  "propagate (execute_query (select_from ts g) False True False w) k =
     k (if lookup_fails (fault_at w 0) then None else Some (RowList (g (db w))))
       (snd (execute_query (select_from ts g) False True False w))"
  by (simp add: propagate_def select_all_result)

lemma propagate_insert:
  "propagate (execute_query (insert_into t g :: 'r statement) False False True w) k =
     k (if write_fails (fault_at w 0) then None else Some (LastRowId (auto_increment w t)))
       (snd (execute_query (insert_into t g :: 'r statement) False False True w))"
  by (simp add: propagate_def insert_result)

lemma propagate_modify:
  "propagate (execute_query (modify kd t g :: 'r statement) False False True w) k =
     k (if write_fails (fault_at w 0) then None else Some (LastRowId 0))
       (snd (execute_query (modify kd t g :: 'r statement) False False True w))"
  by (simp add: propagate_def modify_result)

lemma logged_in_body: "user_id s = Some u \<Longrightarrow> login_required f s w = f u w"
  by (simp add: login_required_def)

subsection \<open>Unread counts\<close>

lemma index_unread_messages_count:
  "fst (index_unread_messages u w) =
     Returned (if lookup_fails (fault_at w 0) then 0
               else length (filter (\<lambda>m. m_receiver_id m = u) (messages (db w))))"
  by (simp add: index_unread_messages_def case_prod_beta lookup_result sql_count_messages_to_def
      map_reply_def)

lemma db1_simps [simp]:
  "users db1 = [\<lparr>u_id = 11, u_full_name = ''Alice'', u_profile_pic = None\<rparr>,
                \<lparr>u_id = 12, u_full_name = ''Bob'', u_profile_pic = None\<rparr>]"
  "notifications db1 = []"
  "messages db1 = [\<lparr>m_id = 8, m_sender_id = 12, m_receiver_id = 11, m_message = [104, 105],
                    m_created_at = 3\<rparr>]"
  "connections db1 = [\<lparr>c_id = 5, c_sender_id = 11, c_receiver_id = 12,
                       c_status = ''accepted'', c_created_at = 2\<rparr>]"
  by (simp_all add: db1_def db0_def)

lemma db1_accepted:
  "\<exists>r. accepted_between db1 11 12 = [r]" "accepted_between db1 11 13 = []"
  "accepted_connection db1 11 12" "\<not> accepted_connection db1 11 13"
  by (simp_all add: accepted_between_def accepted_connection_def db1_def db0_def)

lemma is_connected_world1: "faults w = [] \<Longrightarrow> db w = db1 \<Longrightarrow> fst (is_connected 11 12 w) = Returned True"
  using db1_accepted(1) by (auto simp add: is_connected_result)

lemma conversation_example:
  "fst (conversation 12 alice world1) =
     Render_conversation \<lparr>u_id = 12, u_full_name = ''Bob'', u_profile_pic = None\<rparr>
       [\<lparr>sm_message = \<lparr>m_id = 8, m_sender_id = 12, m_receiver_id = 11, m_message = [104, 105],
                        m_created_at = 3\<rparr>,
         sm_sender_name = ''Bob'', sm_sender_pic = None\<rparr>] 11"
  "db (snd (conversation 12 alice world1)) = db1"
  "faults (snd (conversation 12 alice world1)) = []"
  "flashes (snd (conversation 12 alice world1)) = []"
  by (simp_all add: conversation_def logged_in_body conversation_body_def
      propagate_Returned [OF is_connected_world1] sql_user_by_id_def propagate_by_key
      sql_conversation_def propagate_select_all between_def)

lemma chat_list_example:
  assumes "db w = db1" and "faults w = []"
  shows "fst (chat_list alice w) =
     Render_chat_list
       [\<lparr>ce_user_id = 12, ce_full_name = ''Bob'', ce_profile_pic = None,
         ce_last_message = Some \<lparr>m_id = 8, m_sender_id = 12, m_receiver_id = 11,
                                 m_message = [104, 105], m_created_at = 3\<rparr>,
         ce_unread_count = 1\<rparr>]"
  using assms
  by (simp add: chat_list_def logged_in_body chat_list_body_def get_connected_users_def
      propagate_select_all sql_connected_users_def chat_list_entry_def case_prod_beta
      lookup_result select_all_result map_reply_def propagate_def
      sql_last_message_def sql_count_messages_from_to_def between_def
      sort_conversations_def sort_key_of_def Let_def)

text \<open>
  Claim C3 at a failing input. Alice opens her conversation with Bob and is shown his one
  message. Afterwards the chat list still reports one unread message from Bob, and the
  dashboard's badge one unread message, where the counts the specification words are 0:
  the two queries count every message received, read or not.
\<close>

theorem chat_list_counts_read_messages:
  "shown_ids (fst (conversation 12 alice world1)) = [8]
   \<and> fst (chat_list alice (snd (conversation 12 alice world1))) =
       Render_chat_list
         [\<lparr>ce_user_id = 12, ce_full_name = ''Bob'', ce_profile_pic = None,
           ce_last_message = Some \<lparr>m_id = 8, m_sender_id = 12, m_receiver_id = 11,
                                   m_message = [104, 105], m_created_at = 3\<rparr>,
           ce_unread_count = 1\<rparr>]
   \<and> spec_unread_from [8] (db (snd (conversation 12 alice world1))) 11 12 = 0
   \<and> fst (index_unread_messages 11 (snd (conversation 12 alice world1))) = Returned 1
   \<and> spec_unread_received [8] (db (snd (conversation 12 alice world1))) 11 = 0"
  by (simp add: conversation_example chat_list_example index_unread_messages_count
      spec_unread_from_def spec_unread_received_def)

subsection \<open>Connections\<close>

lemma rows_between_sql:
  "filter (\<lambda>c. between (c_sender_id c) (c_receiver_id c) u t t u) (connections d)
     = rows_between d u t"
  by (simp add: between_def rows_between_def)

lemma case_map_rows:
  "(case map f xs of [] \<Rightarrow> a | [r] \<Rightarrow> b r | r # r' # rs \<Rightarrow> c)
     = (case xs of [] \<Rightarrow> a | [r] \<Rightarrow> b (f r) | r # r' # rs \<Rightarrow> c)"
  by (simp split: list.split)

text \<open>What each operation does to the connections table, for every fault.\<close>

lemma send_request_connections:
  "connections (db (snd (send_request_body t s u w))) =
     (if u \<noteq> t \<and> (lookup_fails (fault_at w 0) \<or> rows_between (db w) u t = [])
         \<and> \<not> write_fails (fault_at w 1)
      then connections (db w) @ [new_request (auto_increment w Connections) u t (now w)]
      else connections (db w))"
  by (simp add: send_request_body_def sql_connection_between_def propagate_lookup
      sql_insert_connection_def propagate_insert insert_db rows_between_sql new_request_def
      case_map_rows split: list.split)

lemma send_request_auto_increment:
  "auto_increment (snd (send_request_body t s u w)) Connections =
     (if u \<noteq> t \<and> (lookup_fails (fault_at w 0) \<or> rows_between (db w) u t = [])
         \<and> fault_at w 1 \<noteq> ConnectError \<and> fault_at w 1 \<noteq> ExecuteError
      then Suc (auto_increment w Connections)
      else auto_increment w Connections)"
  by (simp add: send_request_body_def sql_connection_between_def propagate_lookup
      sql_insert_connection_def propagate_insert insert_auto_increment rows_between_sql
      case_map_rows split: list.split)

lemma respond_request_connections:
  "connections (db (snd (respond_request_body cid a s u w))) =
     (if (a = ''accept'' \<or> a = ''reject'') \<and> \<not> lookup_fails (fault_at w 0)
         \<and> pending_request_for (db w) cid u \<and> \<not> write_fails (fault_at w 1)
      then (if a = ''accept'' then accepted_rows cid (connections (db w))
            else deleted_rows cid (connections (db w)))
      else connections (db w))"
  by (simp add: respond_request_body_def sql_connection_by_id_def propagate_by_key
      sql_accept_connection_def sql_delete_connection_def propagate_modify modify_db
      pending_request_for_def accepted_rows_def deleted_rows_def split: option.split)

lemma respond_request_auto_increment [simp]:
  "auto_increment (snd (respond_request_body cid a s u w)) Connections
     = auto_increment w Connections"
  by (simp add: respond_request_body_def sql_connection_by_id_def propagate_by_key
      sql_accept_connection_def sql_delete_connection_def propagate_modify
      split: option.split)


lemma remove_connection_auto_increment [simp]:
  "auto_increment (snd (remove_connection_body cid u w)) = auto_increment w"
  by (simp add: remove_connection_body_def sql_connection_by_id_def propagate_by_key
      sql_delete_connection_def propagate_modify split: option.split)


lemma cancel_request_auto_increment [simp]:
  "auto_increment (snd (cancel_request_body cid r u w)) = auto_increment w"
  by (simp add: cancel_request_body_def sql_pending_connection_by_id_def propagate_by_key
      sql_delete_connection_def propagate_modify split: option.split)

lemma respond_request_refuses:
  assumes "\<not> (pending_request_for (db w) cid u \<and> (a = ''accept'' \<or> a = ''reject''))"
  shows "db (snd (respond_request_body cid a s u w)) = db w
    \<and> fst (respond_request_body cid a s u w) = Redirect Connections_incoming_requests
    \<and> (\<exists>f \<in> set respond_request_refusals.
          flashes (snd (respond_request_body cid a s u w)) = flashes w @ [f])"
  using assms
  by (auto simp add: respond_request_body_def sql_connection_by_id_def propagate_by_key
      pending_request_for_def respond_request_refusals_def split: option.splits)

text \<open>
  Claim C5. For a logged-in user \<open>u\<close>, \<^verbatim>\<open>respond_request\<close> changes the connections table
  only when the request with the given identifier is addressed to \<open>u\<close> and pending and
  the action is \<^verbatim>\<open>accept\<close> or \<^verbatim>\<open>reject\<close>. In every other case (no such request, another
  receiver, a request already processed, another action) it redirects to the incoming
  requests with one of its refusal messages and the database is unchanged. This holds
  whatever faults the driver shows.
\<close>

theorem respond_request_guarded:
  assumes "user_id s = Some u"
  shows
    "(connections (db (snd (respond_request cid a s w))) \<noteq> connections (db w) \<longrightarrow>
        pending_request_for (db w) cid u \<and> (a = ''accept'' \<or> a = ''reject''))
     \<and> (\<not> (pending_request_for (db w) cid u \<and> (a = ''accept'' \<or> a = ''reject'')) \<longrightarrow>
          db (snd (respond_request cid a s w)) = db w
          \<and> fst (respond_request cid a s w) = Redirect Connections_incoming_requests
          \<and> (\<exists>f \<in> set respond_request_refusals.
                flashes (snd (respond_request cid a s w)) = flashes w @ [f]))"
proof -
  have b: "respond_request cid a s w = respond_request_body cid a s u w"
    using assms by (simp add: respond_request_def login_required_def)
  have changed: "connections (db (snd (respond_request_body cid a s u w))) \<noteq> connections (db w)
      \<longrightarrow> pending_request_for (db w) cid u \<and> (a = ''accept'' \<or> a = ''reject'')"
    by (simp add: respond_request_connections)
  show ?thesis
    unfolding b using changed respond_request_refuses [of w cid u a s] by blast
qed

lemma world2_simps [simp]:
  "db world2 = db2" "auto_increment world2 = next_ids" "files world2 = []"
  "faults world2 = []" "interrupt world2 = NoException"
  "now world2 = 7" "calls world2 = []" "flashes world2 = []"
  by (simp_all add: world2_def)

lemma db2_simps [simp]:
  "connections db2 = [\<lparr>c_id = 6, c_sender_id = 12, c_receiver_id = 11,
                       c_status = ''pending'', c_created_at = 2\<rparr>]"
  "notifications db2 = []" "messages db2 = []"
  by (simp_all add: db2_def db0_def)

theorem respond_request_guarded_witness:
  "user_id alice = Some 11
   \<and> connections (db (snd (respond_request 6 ''accept'' alice world2))) \<noteq> connections (db world2)
   \<and> pending_request_for (db world2) 6 11
   \<and> \<not> pending_request_for (db world2) 9 11
   \<and> db (snd (respond_request 9 ''accept'' alice world2)) = db2
   \<and> fst (respond_request 9 ''accept'' alice world2) = Redirect Connections_incoming_requests"
proof -
  have h: "user_id alice = Some 11" by simp
  have c: "connections (db (snd (respond_request 6 ''accept'' alice world2)))
      \<noteq> connections (db world2)"
    by (simp add: respond_request_def logged_in_body respond_request_connections
        pending_request_for_def accepted_rows_def)
  have n: "\<not> pending_request_for (db world2) 9 11"
    by (simp add: pending_request_for_def)
  show ?thesis
    using h c n respond_request_guarded [OF h, of 6 "''accept''" world2]
      respond_request_guarded [OF h, of 9 "''accept''" world2]
    by simp
qed

subsection \<open>Capacity of events\<close>

lemma no_faults_fault_at [simp]: "no_faults w \<Longrightarrow> fault_at w k = NoFault"
proof -
  assume "no_faults w"
  then have "list_all (\<lambda>f. f = NoFault) (drop k (faults w))"
    by (auto simp add: no_faults_def list_all_iff dest: in_set_dropD)
  then show ?thesis by (cases "drop k (faults w)") (simp_all add: fault_at_def)
qed

lemma already_full_result:
  "fst (already_full ev ident w) =
     Returned (capacity_checked ev \<and> \<not> lookup_fails (fault_at w 0)
               \<and> capacity ev \<le> int (registration_count (db w) ident))"
  by (simp add: already_full_def case_prod_beta lookup_result sql_count_registrations_def
      map_reply_def capacity_checked_def capacity_def registration_count_def
      split: option.split)

lemma already_full_world [simp]:
  "db (snd (already_full ev ident w)) = db w"
  "auto_increment (snd (already_full ev ident w)) = auto_increment w"
  "flashes (snd (already_full ev ident w)) = flashes w"
  "files (snd (already_full ev ident w)) = files w"
  "now (snd (already_full ev ident w)) = now w"
  "interrupt (snd (already_full ev ident w)) = interrupt w"
  "fault_at (snd (already_full ev ident w)) k
     = fault_at w (if capacity_checked ev then Suc k else k)"
  by (simp_all add: already_full_def case_prod_beta sql_count_registrations_def
      capacity_checked_def split: option.split)

lemma propagate_already_full:
  "propagate (already_full ev ident w) k =
     k (capacity_checked ev \<and> \<not> lookup_fails (fault_at w 0)
        \<and> capacity ev \<le> int (registration_count (db w) ident))
       (snd (already_full ev ident w))"
  by (simp add: propagate_def already_full_result)

lemma registered_alt:
  "registered d u ident
     = (filter (\<lambda>r. r_user_id r = u \<and> r_event_id r = ident) (event_registrations d) \<noteq> [])"
  by (simp add: registered_def filter_empty_list_ex)

text \<open>
  \<^verbatim>\<open>register\<close> stores the registration and takes its success path when the event is
  found, no registration of the user is found (the lookup finds none, or fails), the
  event is not found full (no limit is checked, the count is below the limit, or the
  count fails) and the insert is not stopped by a fault, whatever becomes of the
  notification.
\<close>

lemma register_inserts:
  assumes "\<not> lookup_fails (fault_at w 0)" and "event_of (db w) ident = Some ev"
    and "lookup_fails (fault_at w 1) \<or> \<not> registered (db w) u ident"
    and "capacity_checked ev \<longrightarrow>
           lookup_fails (fault_at w 2) \<or> int (registration_count (db w) ident) < capacity ev"
    and "\<not> write_fails (fault_at w (if capacity_checked ev then 3 else 2))"
  shows "event_registrations (db (snd (register_body ident u w)))
       = event_registrations (db w)
           @ [new_registration (auto_increment w EventRegistrations) u ident (now w)]
    \<and> fst (register_body ident u w) = Redirect (Events_view_event ident)
    \<and> flashes (snd (register_body ident u w))
        = flashes w @ [(''Successfully registered for '' @ quoted (e_title ev) @ ''!'',
                        ''success'')]"
  using assms
  by (auto simp add: register_body_def sql_event_by_id_def propagate_by_key event_of_def
      sql_registration_of_def propagate_lookup case_map_rows registered_alt
      propagate_already_full sql_insert_registration_def propagate_insert insert_db
      new_registration_def numeral_3_eq_3 numeral_2_eq_2
      split: list.split)

text \<open>
  When the database answers, \<^verbatim>\<open>register\<close> inserts exactly when the event exists, the
  user is not registered and the event's \<^verbatim>\<open>max_participants\<close> is \<^verbatim>\<open>None\<close>, 0 or above
  the count; an event found full is refused with the database unchanged.
\<close>

lemma register_checked:
  assumes "no_faults w"
  shows "event_registrations (db (snd (register_body ident u w))) =
     (case event_of (db w) ident of
        None \<Rightarrow> event_registrations (db w)
      | Some ev \<Rightarrow>
          if registered (db w) u ident then event_registrations (db w)
          else if (case e_max_participants ev of
                     None \<Rightarrow> False
                   | Some mx \<Rightarrow> mx \<noteq> 0 \<and> mx \<le> int (registration_count (db w) ident))
          then event_registrations (db w)
          else event_registrations (db w)
                 @ [new_registration (auto_increment w EventRegistrations) u ident (now w)])"
  using assms
  by (auto simp add: register_body_def sql_event_by_id_def propagate_by_key event_of_def
      sql_registration_of_def propagate_lookup case_map_rows registered_alt
      propagate_already_full sql_insert_registration_def propagate_insert insert_db
      new_registration_def capacity_checked_def capacity_def
      split: list.split option.split)

lemma register_full_refused:
  assumes "no_faults w" and "event_of (db w) ident = Some ev" and "\<not> registered (db w) u ident"
    and "e_max_participants ev = Some mx" and "mx \<noteq> 0"
    and "mx \<le> int (registration_count (db w) ident)"
  shows "db (snd (register_body ident u w)) = db w
    \<and> fst (register_body ident u w) = Redirect (Events_view_event ident)
    \<and> flashes (snd (register_body ident u w))
        = flashes w @ [(''This event is already full.'', ''warning'')]"
  using assms
  by (auto simp add: register_body_def sql_event_by_id_def propagate_by_key event_of_def
      sql_registration_of_def propagate_lookup case_map_rows registered_alt
      propagate_already_full capacity_checked_def capacity_def
      split: list.split)

lemma world3_simps [simp]:
  "db world3 = db3" "auto_increment world3 = next_ids" "files world3 = []"
  "faults world3 = []" "interrupt world3 = NoException"
  "now world3 = 7" "calls world3 = []" "flashes world3 = []"
  by (simp_all add: world3_def)

lemma db3_simps [simp]:
  "events db3 = [\<lparr>e_id = 4, e_title = ''Open day'', e_max_participants = Some 0\<rparr>,
                 \<lparr>e_id = 5, e_title = ''Workshop'', e_max_participants = Some 1\<rparr>,
                 \<lparr>e_id = 6, e_title = ''Talk'', e_max_participants = None\<rparr>]"
  "event_registrations db3 = [\<lparr>r_id = 3, r_user_id = 12, r_event_id = 5,
                               r_registered_at = 2\<rparr>]"
  "notifications db3 = []"
  by (simp_all add: db3_def db0_def)

text \<open>
  Claim C6 at a failing input. The event ``Open day'' has \<^verbatim>\<open>max_participants\<close> 0 and no
  registrations: the count, 0, has reached the maximum. \<^verbatim>\<open>register\<close> does not ask for
  the count (0 is falsy), inserts Alice's registration and flashes success.
\<close>

theorem register_ignores_zero_capacity:
  "event_of (db world3) 4
     = Some \<lparr>e_id = 4, e_title = ''Open day'', e_max_participants = Some 0\<rparr>
   \<and> \<not> registered (db world3) 11 4
   \<and> registration_count (db world3) 4 = 0
   \<and> event_registrations (db (snd (register 4 alice world3)))
       = event_registrations db3 @ [\<lparr>r_id = 4, r_user_id = 11, r_event_id = 4,
                                      r_registered_at = 7\<rparr>]
   \<and> flashes (snd (register 4 alice world3))
       = [(''Successfully registered for '' @ quoted ''Open day'' @ ''!'', ''success'')]"
proof -
  have e: "event_of (db world3) 4
      = Some \<lparr>e_id = 4, e_title = ''Open day'', e_max_participants = Some 0\<rparr>"
    by (simp add: event_of_def)
  have r: "\<not> registered (db world3) 11 4" by (simp add: registered_def)
  have n: "registration_count (db world3) 4 = 0" by (simp add: registration_count_def)
  have c: "\<not> capacity_checked \<lparr>e_id = 4, e_title = ''Open day'', e_max_participants = Some 0\<rparr>"
    by (simp add: capacity_checked_def)
  from register_inserts [of world3 4 _ 11, OF _ e] r c
  have "event_registrations (db (snd (register_body 4 11 world3)))
       = event_registrations (db world3) @ [new_registration 4 11 4 7]
    \<and> flashes (snd (register_body 4 11 world3))
        = [(''Successfully registered for '' @ quoted ''Open day'' @ ''!'', ''success'')]"
    by simp
  with e r n show ?thesis
    by (simp add: register_def logged_in_body new_registration_def)
qed

subsection \<open>The status of connections\<close>



lemma send_request_inserts:
  assumes "u \<noteq> t" and "lookup_fails (fault_at w 0) \<or> rows_between (db w) u t = []"
    and "\<not> write_fails (fault_at w 1)"
  shows "connections (db (snd (send_request_body t s u w)))
       = connections (db w) @ [new_request (auto_increment w Connections) u t (now w)]
    \<and> fst (send_request_body t s u w) = Redirect (Profile_view_profile t)
    \<and> flashes (snd (send_request_body t s u w))
        = flashes w @ [(''Connection request sent successfully!'', ''success'')]"
  using assms
  by (auto simp add: send_request_body_def sql_connection_between_def propagate_lookup
      rows_between_sql sql_insert_connection_def propagate_insert insert_db new_request_def)















lemma bob_simps [simp]: "user_id bob = Some 12" "user_name bob = Some ''Bob''"
  by (simp_all add: bob_def)


lemma world6_reachable: "reachable world6"
proof -
  let ?c5 = "\<lparr>c_id = 5, c_sender_id = 11, c_receiver_id = 12, c_status = ''pending'',
              c_created_at = 2\<rparr>"
  let ?c6 = "\<lparr>c_id = 6, c_sender_id = 12, c_receiver_id = 11, c_status = ''pending'',
              c_created_at = 3\<rparr>"
  let ?v = "\<lambda>cs n fs t. world0\<lparr>db := db0\<lparr>connections := cs\<rparr>,
              auto_increment := next_ids(Connections := n), faults := fs, now := t\<rparr>"
  have "reachable (?v [] 5 [] 2)" by (rule reachable.start) simp
  then have "reachable (snd (send_request 12 alice (?v [] 5 [] 2)))"
    by (rule reachable.by_send_request)
  then have "reachable (?v [?c5] 6 [FetchError] 3)"
    by (rule reachable.elsewhere)
       (simp_all add: send_request_def logged_in_body send_request_connections
          send_request_auto_increment rows_between_def new_request_def)
  then have "reachable (snd (send_request 11 bob (?v [?c5] 6 [FetchError] 3)))"
    by (rule reachable.by_send_request)
  then have "reachable (?v [?c5, ?c6] 7 [] 4)"
    by (rule reachable.elsewhere)
       (simp_all add: send_request_def logged_in_body send_request_connections
          send_request_auto_increment new_request_def fault_at_def lookup_fails_def
          write_fails_def)
  then have "reachable (snd (respond_request 5 ''accept'' bob (?v [?c5, ?c6] 7 [] 4)))"
    by (rule reachable.by_respond_request)
  then have "reachable (?v [?c5\<lparr>c_status := ''accepted''\<rparr>, ?c6] 7 [] 4)"
    by (rule reachable.elsewhere)
       (simp_all add: respond_request_def logged_in_body respond_request_connections
          pending_request_for_def accepted_rows_def)
  then have "reachable (snd (respond_request 6 ''accept'' alice
      (?v [?c5\<lparr>c_status := ''accepted''\<rparr>, ?c6] 7 [] 4)))"
    by (rule reachable.by_respond_request)
  then show ?thesis
    by (rule reachable.elsewhere)
       (simp_all add: respond_request_def logged_in_body respond_request_connections
          pending_request_for_def accepted_rows_def db6_def)
qed





subsection \<open>Applications\<close>

lemma file_world [simp]:
  "db (save_file n w) = db w" "flashes (save_file n w) = flashes w"
  "faults (save_file n w) = faults w" "now (save_file n w) = now w"
  "interrupt (save_file n w) = interrupt w" "fault_at (save_file n w) k = fault_at w k"
  "auto_increment (save_file n w) = auto_increment w"
  "files (save_file n w) = List.insert n (files w)"
  "db (remove_file n w) = db w" "flashes (remove_file n w) = flashes w"
  "faults (remove_file n w) = faults w" "now (remove_file n w) = now w"
  "interrupt (remove_file n w) = interrupt w" "fault_at (remove_file n w) k = fault_at w k"
  "auto_increment (remove_file n w) = auto_increment w"
  "files (remove_file n w) = removeAll n (files w)"
  by (simp_all add: save_file_def remove_file_def fault_at_def)

lemma fold_flash_db [simp]: "db (fold (\<lambda>e. flash e cat) es w) = db w"
  by (induction es arbitrary: w) simp_all

lemma fold_flash_files [simp]: "files (fold (\<lambda>e. flash e cat) es w) = files w"
  by (induction es arbitrary: w) simp_all



lemma apply_not_found:
  assumes "lookup_fails (fault_at w 0) \<or> opportunity_of (db w) ident = None"
  shows "db (snd (apply_body ident form u w)) = db w
    \<and> files (snd (apply_body ident form u w)) = files w
    \<and> fst (apply_body ident form u w) = Redirect Opportunities_list_opportunities
    \<and> flashes (snd (apply_body ident form u w))
        = flashes w @ [(''Opportunity not found.'', ''danger'')]"
  using assms
  by (auto simp add: apply_body_def sql_opportunity_by_id_def propagate_by_key
      opportunity_of_def)






lemma world4_simps [simp]:
  "db world4 = db4" "auto_increment world4 = next_ids" "files world4 = [''app_13_21_2.pdf'']"
  "faults world4 = []" "interrupt world4 = NoException" "now world4 = 7"
  "calls world4 = []" "flashes world4 = []"
  by (simp_all add: world4_def world0_def)

lemma db4_simps [simp]:
  "opportunities db4 = [\<lparr>o_id = 21, o_title = ''Engineer''\<rparr>]"
  "applications db4 = [\<lparr>a_id = 31, a_user_id = 13, a_opportunity_id = 21,
                        a_resume_file = ''app_13_21_2.pdf'', a_status = ''pending'',
                        a_applied_at = 2\<rparr>]"
  "notifications db4 = []"
  by (simp_all add: db4_def db0_def)

lemma carol_simps [simp]: "user_id carol = Some 13" "user_name carol = Some ''Carol''"
  by (simp_all add: carol_def)

lemma resume_form_simps [simp]: "validate_on_submit resume_form"
  by (simp add: resume_form_def)





subsection \<open>Notifications of messages and accepted requests\<close>

text \<open>
  \<^verbatim>\<open>send_message\<close> stores the message and takes its success path when the users are
  joined by one accepted connection that the lookup finds, the text is not empty and
  the insert is not stopped by a fault; the notification is stored when the guarded call
  is reached and its insert is not stopped by a fault.
\<close>

lemma send_message_sends:
  assumes "p \<noteq> u" and "\<not> lookup_fails (fault_at w 0)" and "accepted_between (db w) u p = [c]"
    and "message_text m \<noteq> []" and "\<not> write_fails (fault_at w 1)"
  shows "messages (db (snd (send_message_body p m s u w)))
       = messages (db w) @ [new_message (auto_increment w Messages) u p (message_text m) (now w)]
    \<and> notifications (db (snd (send_message_body p m s u w)))
        = (if notification_stored (interrupt w) (fault_at w 2)
           then notifications (db w)
                  @ [new_notification (auto_increment w Notifications) p
                       (''New message from '' @ session_user_name s) ''message'' (now w)]
           else notifications (db w))
    \<and> fst (send_message_body p m s u w) = Redirect (Chat_conversation p)
    \<and> flashes (snd (send_message_body p m s u w)) = flashes w"
proof -
  have r: "fst (is_connected u p w) = Returned True"
    using assms(2,3) by (simp add: is_connected_result)
  from assms(1,4,5) show ?thesis
    by (simp add: send_message_body_def propagate_Returned [OF r] message_text_def
        sql_insert_message_def propagate_insert insert_db insert_auto_increment
        try_create_notification_db new_message_def numeral_2_eq_2 Let_def)
qed

text \<open>
  In every other case \<^verbatim>\<open>send_message\<close> leaves the database as it is: whatever
  faults the driver shows, it stores a notification only together with its message.
\<close>

lemma send_message_unsent:
  assumes "\<not> (p \<noteq> u \<and> \<not> lookup_fails (fault_at w 0)
              \<and> length (accepted_between (db w) u p) = 1
              \<and> message_text m \<noteq> [] \<and> \<not> write_fails (fault_at w 1))"
  shows "db (snd (send_message_body p m s u w)) = db w"
proof (cases "fst (is_connected u p w)")
  case Raised
  then show ?thesis by (simp add: send_message_body_def propagate_Raised)
next
  case (Returned b)
  then have b: "b \<longrightarrow> \<not> lookup_fails (fault_at w 0) \<and> length (accepted_between (db w) u p) = 1"
    by (auto simp add: is_connected_result split: if_splits list.splits)
  with assms show ?thesis
    by (auto simp add: send_message_body_def propagate_Returned [OF Returned] message_text_def
        Let_def sql_insert_message_def propagate_insert insert_db)
qed

text \<open>
  \<^verbatim>\<open>respond_request\<close> with \<^verbatim>\<open>accept\<close>, on a pending request addressed to the user that
  the lookup finds, notifies the sender of the request when the guarded call is reached
  and its insert is not stopped by a fault.
\<close>

lemma respond_request_notifies:
  assumes "find (\<lambda>c. c_id c = cid) (connections (db w)) = Some r"
    and "c_receiver_id r = u" and "c_status r = ''pending''"
    and "\<not> lookup_fails (fault_at w 0)"
  shows "notifications (db (snd (respond_request_body cid ''accept'' s u w)))
       = (if notification_stored (interrupt w) (fault_at w 2)
          then notifications (db w)
                 @ [new_notification (auto_increment w Notifications) (c_sender_id r)
                      (session_user_name s @ '' accepted your connection request'')
                      ''connection'' (now w)]
          else notifications (db w))
    \<and> fst (respond_request_body cid ''accept'' s u w) = Redirect Connections_incoming_requests
    \<and> flashes (snd (respond_request_body cid ''accept'' s u w))
        = flashes w @ [(''Connection request accepted!'', ''success'')]"
  using assms
  by (simp add: respond_request_body_def sql_connection_by_id_def propagate_by_key
      sql_accept_connection_def propagate_modify modify_db try_create_notification_db
      numeral_2_eq_2)


lemma notification_fails_simps [simp]:
  "db notification_fails = db1" "auto_increment notification_fails = next_ids"
  "faults notification_fails = [NoFault, NoFault, ExecuteError]"
  "interrupt notification_fails = NoException" "now notification_fails = 7"
  "flashes notification_fails = []"
  "fault_at notification_fails 0 = NoFault" "fault_at notification_fails (Suc 0) = NoFault"
  "fault_at notification_fails 2 = ExecuteError"
  by (simp_all add: notification_fails_def fault_at_def)

lemma notification_raises_simps [simp]:
  "db notification_raises = db1" "auto_increment notification_raises = next_ids"
  "faults notification_raises = []"
  "interrupt notification_raises = ExceptionBeforeCall" "now notification_raises = 7"
  "flashes notification_raises = []"
  by (simp_all add: notification_raises_def)

lemma db1_rows:
  "accepted_between db1 11 12
     = [\<lparr>c_id = 5, c_sender_id = 11, c_receiver_id = 12, c_status = ''accepted'',
         c_created_at = 2\<rparr>]"
  by (simp add: accepted_between_def)

lemma text_hi [simp]: "message_text (Some [104, 105]) = [104, 105]"
  by (simp add: message_text_def strip_def isspace_def)

text \<open>
  Claim C8 as stated fails where the notification cannot be created: Alice's message to
  Bob is stored, and no notification is, when the insert of the notification fails and
  when the guarded block is left before it.
\<close>

theorem send_message_without_notification:
  "messages (db (snd (send_message 12 (Some [104, 105]) alice notification_fails)))
     = messages db1 @ [\<lparr>m_id = 9, m_sender_id = 11, m_receiver_id = 12,
                         m_message = [104, 105], m_created_at = 7\<rparr>]
   \<and> notifications (db (snd (send_message 12 (Some [104, 105]) alice notification_fails))) = []
   \<and> messages (db (snd (send_message 12 (Some [104, 105]) alice notification_raises)))
     = messages db1 @ [\<lparr>m_id = 9, m_sender_id = 11, m_receiver_id = 12,
                         m_message = [104, 105], m_created_at = 7\<rparr>]
   \<and> notifications (db (snd (send_message 12 (Some [104, 105]) alice notification_raises))) = []"
proof -
  have n: "(12::nat) \<noteq> 11" by simp
  from send_message_sends [OF n, of notification_fails _ "Some [104, 105]" alice]
    send_message_sends [OF n, of notification_raises _ "Some [104, 105]" alice]
  show ?thesis
    by (simp add: send_message_def logged_in_body db1_rows new_message_def
        notification_stored_def write_fails_def del: db1_simps)
       (simp add: db1_simps)
qed

text \<open>
  Claim C8, as the code has it.

  \<^item> \<^verbatim>\<open>create_notification\<close> stores its row, for the given user, with the given type,
    unread, exactly when its insert is not stopped by a fault; it then returns the
    row's identifier, and otherwise \<^verbatim>\<open>None\<close> with nothing stored.
  \<^item> For a logged-in user \<open>u\<close>, when \<^verbatim>\<open>send_message\<close> stores its message (the users
    are joined by one accepted connection that the lookup finds, the text is not empty
    and the insert is not stopped by a fault), a notification of type \<^verbatim>\<open>message\<close> for
    the receiver is stored, unread, exactly when the guarded call is reached and its
    insert is not stopped by a fault; and \<^verbatim>\<open>send_message\<close> stores no notification
    without its message.
  \<^item> When \<^verbatim>\<open>respond_request\<close> is called with \<^verbatim>\<open>accept\<close> on a pending request addressed
    to \<open>u\<close> and the lookup is answered, a notification of type \<^verbatim>\<open>connection\<close> for the
    sender of the request is stored, unread, under the same condition, and the request
    is accepted when the update is not stopped by a fault.
\<close>

theorem notifications_created_unread:
  assumes "user_id s = Some u"
  shows
    "fst (create_notification uid msg ty w)
       = Returned (if write_fails (fault_at w 0) then None
                   else Some (LastRowId (auto_increment w Notifications)))
     \<and> notifications (db (snd (create_notification uid msg ty w)))
         = (if write_fails (fault_at w 0) then notifications (db w)
            else notifications (db w)
                   @ [\<lparr>n_id = auto_increment w Notifications, n_user_id = uid,
                       n_message = msg, n_type = ty, n_is_read = False,
                       n_created_at = now w\<rparr>])
     \<and> (p \<noteq> u \<and> \<not> lookup_fails (fault_at w 0) \<and> accepted_between (db w) u p = [c]
          \<and> message_text m \<noteq> [] \<and> \<not> write_fails (fault_at w 1) \<longrightarrow>
          messages (db (snd (send_message p m s w)))
            = messages (db w)
              @ [new_message (auto_increment w Messages) u p (message_text m) (now w)]
          \<and> notifications (db (snd (send_message p m s w)))
              = (if notification_stored (interrupt w) (fault_at w 2)
                 then notifications (db w)
                        @ [\<lparr>n_id = auto_increment w Notifications, n_user_id = p,
                            n_message = ''New message from '' @ session_user_name s,
                            n_type = ''message'', n_is_read = False, n_created_at = now w\<rparr>]
                 else notifications (db w)))
     \<and> (notifications (db (snd (send_message p m s w))) \<noteq> notifications (db w) \<longrightarrow>
          messages (db (snd (send_message p m s w))) \<noteq> messages (db w))
     \<and> (find (\<lambda>c. c_id c = cid) (connections (db w)) = Some r \<and> c_receiver_id r = u
          \<and> c_status r = ''pending'' \<and> \<not> lookup_fails (fault_at w 0) \<longrightarrow>
          notifications (db (snd (respond_request cid ''accept'' s w)))
            = (if notification_stored (interrupt w) (fault_at w 2)
               then notifications (db w)
                      @ [\<lparr>n_id = auto_increment w Notifications, n_user_id = c_sender_id r,
                          n_message = session_user_name s
                                        @ '' accepted your connection request'',
                          n_type = ''connection'', n_is_read = False, n_created_at = now w\<rparr>]
               else notifications (db w))
          \<and> (\<not> write_fails (fault_at w 1) \<longrightarrow>
               connections (db (snd (respond_request cid ''accept'' s w)))
                 = accepted_rows cid (connections (db w))))"
proof -
  have sm: "send_message p m s w = send_message_body p m s u w"
    and rr: "respond_request cid ''accept'' s w = respond_request_body cid ''accept'' s u w"
    using assms by (simp_all add: send_message_def respond_request_def logged_in_body)
  have n1: "fst (create_notification uid msg ty w)
       = Returned (if write_fails (fault_at w 0) then None
                   else Some (LastRowId (auto_increment w Notifications)))"
    by (rule create_notification_result)
  have n2: "notifications (db (snd (create_notification uid msg ty w)))
         = (if write_fails (fault_at w 0) then notifications (db w)
            else notifications (db w)
                   @ [\<lparr>n_id = auto_increment w Notifications, n_user_id = uid,
                       n_message = msg, n_type = ty, n_is_read = False,
                       n_created_at = now w\<rparr>])"
    by (simp add: create_notification_db new_notification_def)
  have m1: "p \<noteq> u \<and> \<not> lookup_fails (fault_at w 0) \<and> accepted_between (db w) u p = [c]
          \<and> message_text m \<noteq> [] \<and> \<not> write_fails (fault_at w 1) \<longrightarrow>
          messages (db (snd (send_message p m s w)))
            = messages (db w)
              @ [new_message (auto_increment w Messages) u p (message_text m) (now w)]
          \<and> notifications (db (snd (send_message p m s w)))
              = (if notification_stored (interrupt w) (fault_at w 2)
                 then notifications (db w)
                        @ [\<lparr>n_id = auto_increment w Notifications, n_user_id = p,
                            n_message = ''New message from '' @ session_user_name s,
                            n_type = ''message'', n_is_read = False, n_created_at = now w\<rparr>]
                 else notifications (db w))"
    unfolding sm using send_message_sends [of p u w c m s, unfolded new_notification_def]
    by blast
  have m2: "notifications (db (snd (send_message p m s w))) \<noteq> notifications (db w) \<longrightarrow>
          messages (db (snd (send_message p m s w))) \<noteq> messages (db w)"
  proof
    assume changed: "notifications (db (snd (send_message p m s w))) \<noteq> notifications (db w)"
    then have "db (snd (send_message_body p m s u w)) \<noteq> db w" unfolding sm by auto
    with send_message_unsent [of p u w m s]
    have sent: "p \<noteq> u \<and> \<not> lookup_fails (fault_at w 0)
        \<and> length (accepted_between (db w) u p) = 1
        \<and> message_text m \<noteq> [] \<and> \<not> write_fails (fault_at w 1)" by blast
    then obtain c' where "accepted_between (db w) u p = [c']"
      by (cases "accepted_between (db w) u p") auto
    with sent send_message_sends [of p u w c' m s]
    show "messages (db (snd (send_message p m s w))) \<noteq> messages (db w)"
      unfolding sm by simp
  qed
  have r1: "find (\<lambda>c. c_id c = cid) (connections (db w)) = Some r \<and> c_receiver_id r = u
          \<and> c_status r = ''pending'' \<and> \<not> lookup_fails (fault_at w 0) \<longrightarrow>
          notifications (db (snd (respond_request cid ''accept'' s w)))
            = (if notification_stored (interrupt w) (fault_at w 2)
               then notifications (db w)
                      @ [\<lparr>n_id = auto_increment w Notifications, n_user_id = c_sender_id r,
                          n_message = session_user_name s
                                        @ '' accepted your connection request'',
                          n_type = ''connection'', n_is_read = False, n_created_at = now w\<rparr>]
               else notifications (db w))
          \<and> (\<not> write_fails (fault_at w 1) \<longrightarrow>
               connections (db (snd (respond_request cid ''accept'' s w)))
                 = accepted_rows cid (connections (db w)))"
    unfolding rr
    using respond_request_notifies [of cid w r u s, unfolded new_notification_def]
    by (simp add: respond_request_connections pending_request_for_def)
  from n1 n2 m1 m2 r1 show ?thesis by blast
qed

text \<open>
  The theorem where Alice sends Bob a message, with and without a fault at the
  notification, and where she accepts his request.
\<close>

theorem notifications_created_unread_witness:
  "user_id alice = Some 11
   \<and> accepted_between (db world1) 11 12
       = [\<lparr>c_id = 5, c_sender_id = 11, c_receiver_id = 12, c_status = ''accepted'',
           c_created_at = 2\<rparr>]
   \<and> message_text (Some [104, 105]) \<noteq> []
   \<and> notifications (db (snd (send_message 12 (Some [104, 105]) alice world1)))
       = [\<lparr>n_id = 2, n_user_id = 12, n_message = ''New message from Alice'',
           n_type = ''message'', n_is_read = False, n_created_at = 7\<rparr>]
   \<and> messages (db (snd (send_message 12 (Some [104, 105]) alice world1))) \<noteq> messages (db world1)
   \<and> notifications (db (snd (send_message 12 (Some [104, 105]) alice notification_fails))) = []
   \<and> find (\<lambda>c. c_id c = 6) (connections (db world2))
       = Some \<lparr>c_id = 6, c_sender_id = 12, c_receiver_id = 11, c_status = ''pending'',
               c_created_at = 2\<rparr>
   \<and> notifications (db (snd (respond_request 6 ''accept'' alice world2)))
       = [\<lparr>n_id = 2, n_user_id = 12,
           n_message = ''Alice accepted your connection request'', n_type = ''connection'',
           n_is_read = False, n_created_at = 7\<rparr>]
   \<and> fst (create_notification 12 ''hi'' ''general'' commit_fails) = Returned None
   \<and> notifications (db (snd (create_notification 12 ''hi'' ''general'' commit_fails))) = []"
proof -
  let ?c = "\<lparr>c_id = 5, c_sender_id = 11, c_receiver_id = 12, c_status = ''accepted'',
             c_created_at = 2\<rparr>"
  let ?r = "\<lparr>c_id = 6, c_sender_id = 12, c_receiver_id = 11, c_status = ''pending'',
             c_created_at = 2\<rparr>"
  have a: "user_id alice = Some 11" by simp
  have rows: "accepted_between (db world1) 11 12 = [?c]"
    "accepted_between (db notification_fails) 11 12 = [?c]"
    by (simp_all add: db1_rows)
  have t: "message_text (Some [104, 105]) \<noteq> []" by simp
  have f: "find (\<lambda>c. c_id c = 6) (connections (db world2)) = Some ?r" by simp
  have name: "session_user_name alice = ''Alice''" by (simp add: session_user_name_def)
  have stored: "notification_stored (interrupt world1) (fault_at world1 2)"
    "\<not> notification_stored (interrupt notification_fails) (fault_at notification_fails 2)"
    "notification_stored (interrupt world2) (fault_at world2 2)"
    by (simp_all add: notification_stored_def write_fails_def)
  have cf: "write_fails (fault_at commit_fails 0)" "db commit_fails = db0"
    by (simp_all add: commit_fails_def fault_at_def write_fails_def)
  note sent = notifications_created_unread [OF a, where p = 12 and w = world1 and c = ?c
      and m = "Some [104, 105]", THEN conjunct2, THEN conjunct2, THEN conjunct1]
  have m1: "notifications (db (snd (send_message 12 (Some [104, 105]) alice world1)))
       = [\<lparr>n_id = 2, n_user_id = 12, n_message = ''New message from Alice'',
           n_type = ''message'', n_is_read = False, n_created_at = 7\<rparr>]"
    using sent rows(1) stored(1) name by simp
  have m2: "messages (db (snd (send_message 12 (Some [104, 105]) alice world1)))
      \<noteq> messages (db world1)"
    using notifications_created_unread [OF a, where p = 12 and w = world1
      and m = "Some [104, 105]", THEN conjunct2, THEN conjunct2, THEN conjunct2,
      THEN conjunct1] m1
    by simp
  have m3: "notifications (db (snd (send_message 12 (Some [104, 105]) alice
      notification_fails))) = []"
    using notifications_created_unread [OF a, where p = 12 and w = notification_fails
      and c = ?c and m = "Some [104, 105]", THEN conjunct2, THEN conjunct2, THEN conjunct1]
      rows(2) stored(2)
    by simp
  have r1: "notifications (db (snd (respond_request 6 ''accept'' alice world2)))
       = [\<lparr>n_id = 2, n_user_id = 12,
           n_message = ''Alice accepted your connection request'', n_type = ''connection'',
           n_is_read = False, n_created_at = 7\<rparr>]"
    using notifications_created_unread [OF a, where cid = 6 and w = world2 and r = ?r,
      THEN conjunct2, THEN conjunct2, THEN conjunct2, THEN conjunct2] f stored(3) name
    by simp
  have c1: "fst (create_notification 12 ''hi'' ''general'' commit_fails) = Returned None"
    using notifications_created_unread [OF a, where uid = 12 and msg = "''hi''"
      and ty = "''general''" and w = commit_fails, THEN conjunct1] cf
    by simp
  have c2: "notifications (db (snd (create_notification 12 ''hi'' ''general'' commit_fails)))
      = []"
    using notifications_created_unread [OF a, where uid = 12 and msg = "''hi''"
      and ty = "''general''" and w = commit_fails, THEN conjunct2, THEN conjunct1] cf
    by (simp add: db0_def)
  from a rows(1) t m1 m2 m3 f r1 c1 c2 show ?thesis by blast
qed

subsection \<open>Likes\<close>




lemma like_post_world [simp]:
  "now (snd (like_post_body post r u w)) = now w"
  "flashes (snd (like_post_body post r u w)) = flashes w"
  by (simp_all add: like_post_body_def sql_like_of_def propagate_lookup
      sql_delete_like_def sql_insert_like_def propagate_insert propagate_modify
      split: list.split)


lemma now_update_world [simp]:
  "db (w\<lparr>now := t\<rparr>) = db w" "auto_increment (w\<lparr>now := t\<rparr>) = auto_increment w"
  "fault_at (w\<lparr>now := t\<rparr>) k = fault_at w k"
  by (simp_all add: fault_at_def)


lemma likes_of_without [simp]: "filter (\<lambda>l. l_user_id l = u \<and> l_post_id l = post)
    (without_like u post ls) = []"
  by (induction ls) (simp_all add: without_like_def)










lemma world5_simps [simp]:
  "db world5 = db5" "auto_increment world5 = next_ids" "files world5 = []"
  "faults world5 = []" "interrupt world5 = NoException" "now world5 = 7"
  "calls world5 = []" "flashes world5 = []"
  by (simp_all add: world5_def)

lemma db5_simps [simp]:
  "likes db5 = [\<lparr>l_id = 3, l_user_id = 11, l_post_id = 40, l_created_at = 2\<rparr>]"
  by (simp add: db5_def db0_def)




subsection \<open>A failed notification does not undo the operation\<close>

text \<open>
  Claim C10 as stated fails for \<^verbatim>\<open>send_message\<close>: Alice's message to Bob is inserted,
  and no message is flashed.
\<close>

theorem send_message_flashes_nothing:
  "messages (db (snd (send_message 12 (Some [104, 105]) alice world1)))
     = messages db1 @ [\<lparr>m_id = 9, m_sender_id = 11, m_receiver_id = 12, m_message = [104, 105],
                         m_created_at = 7\<rparr>]
   \<and> flashes (snd (send_message 12 (Some [104, 105]) alice world1)) = []"
proof -
  have n: "(12::nat) \<noteq> 11" by simp
  from send_message_sends [OF n, of world1 _ "Some [104, 105]" alice]
  show ?thesis
    by (simp add: send_message_def logged_in_body db1_rows new_message_def)
qed

text \<open>
  Claim C10, as the code has it. For a logged-in user \<open>u\<close>, whatever happens to the
  notification, that is however the guarded block ends and whatever fault the driver
  shows at the insert of the notification:

  \<^item> when the users are joined by one accepted connection that the lookup finds, the
    text is not empty and the insert of the message is not stopped by a fault,
    \<^verbatim>\<open>send_message\<close> keeps the inserted message, redirects to the conversation and
    flashes nothing;
  \<^item> when the target is another user, the lookup finds no row between the two or fails,
    and the insert of the request is not stopped by a fault, \<^verbatim>\<open>send_request\<close> keeps the
    inserted request, redirects to the profile and flashes its success message;
  \<^item> when the event is found, no registration of \<open>u\<close> is found, the event is not found
    full and the insert of the registration is not stopped by a fault, \<^verbatim>\<open>register\<close>
    keeps the inserted registration, redirects to the event and flashes its success
    message.

  The conditions are on the queries up to the insert of the operation; none is on the
  guarded block or on the query of the notification.
\<close>

theorem notification_failure_tolerated:
  assumes "user_id s = Some u"
  shows
    "(p \<noteq> u \<and> \<not> lookup_fails (fault_at w 0) \<and> accepted_between (db w) u p = [c]
        \<and> message_text m \<noteq> [] \<and> \<not> write_fails (fault_at w 1) \<longrightarrow>
        messages (db (snd (send_message p m s w)))
          = messages (db w)
            @ [\<lparr>m_id = auto_increment w Messages, m_sender_id = u, m_receiver_id = p,
                m_message = message_text m, m_created_at = now w\<rparr>]
        \<and> fst (send_message p m s w) = Redirect (Chat_conversation p)
        \<and> flashes (snd (send_message p m s w)) = flashes w)
     \<and> (u \<noteq> t \<and> (lookup_fails (fault_at w 0) \<or> rows_between (db w) u t = [])
          \<and> \<not> write_fails (fault_at w 1) \<longrightarrow>
          connections (db (snd (send_request t s w)))
            = connections (db w)
              @ [\<lparr>c_id = auto_increment w Connections, c_sender_id = u, c_receiver_id = t,
                  c_status = ''pending'', c_created_at = now w\<rparr>]
          \<and> fst (send_request t s w) = Redirect (Profile_view_profile t)
          \<and> flashes (snd (send_request t s w))
              = flashes w @ [(''Connection request sent successfully!'', ''success'')])
     \<and> (\<not> lookup_fails (fault_at w 0) \<and> event_of (db w) ident = Some ev
          \<and> (lookup_fails (fault_at w 1) \<or> \<not> registered (db w) u ident)
          \<and> (capacity_checked ev \<longrightarrow>
                lookup_fails (fault_at w 2)
                \<or> int (registration_count (db w) ident) < capacity ev)
          \<and> \<not> write_fails (fault_at w (if capacity_checked ev then 3 else 2)) \<longrightarrow>
          event_registrations (db (snd (register ident s w)))
            = event_registrations (db w)
              @ [\<lparr>r_id = auto_increment w EventRegistrations, r_user_id = u,
                  r_event_id = ident, r_registered_at = now w\<rparr>]
          \<and> fst (register ident s w) = Redirect (Events_view_event ident)
          \<and> flashes (snd (register ident s w))
              = flashes w @ [(''Successfully registered for '' @ quoted (e_title ev) @ ''!'',
                              ''success'')])"
proof -
  have b: "send_message p m s w = send_message_body p m s u w"
    "send_request t s w = send_request_body t s u w"
    "register ident s w = register_body ident u w"
    using assms by (simp_all add: send_message_def send_request_def register_def logged_in_body)
  have m: "p \<noteq> u \<and> \<not> lookup_fails (fault_at w 0) \<and> accepted_between (db w) u p = [c]
        \<and> message_text m \<noteq> [] \<and> \<not> write_fails (fault_at w 1) \<longrightarrow>
        messages (db (snd (send_message_body p m s u w)))
          = messages (db w)
            @ [\<lparr>m_id = auto_increment w Messages, m_sender_id = u, m_receiver_id = p,
                m_message = message_text m, m_created_at = now w\<rparr>]
        \<and> fst (send_message_body p m s u w) = Redirect (Chat_conversation p)
        \<and> flashes (snd (send_message_body p m s u w)) = flashes w"
    using send_message_sends [where p = p and u = u and w = w and c = c and m = m and s = s,
        unfolded new_message_def]
    by blast
  have r: "u \<noteq> t \<and> (lookup_fails (fault_at w 0) \<or> rows_between (db w) u t = [])
          \<and> \<not> write_fails (fault_at w 1) \<longrightarrow>
          connections (db (snd (send_request_body t s u w)))
            = connections (db w)
              @ [\<lparr>c_id = auto_increment w Connections, c_sender_id = u, c_receiver_id = t,
                  c_status = ''pending'', c_created_at = now w\<rparr>]
          \<and> fst (send_request_body t s u w) = Redirect (Profile_view_profile t)
          \<and> flashes (snd (send_request_body t s u w))
              = flashes w @ [(''Connection request sent successfully!'', ''success'')]"
    using send_request_inserts [where u = u and t = t and w = w and s = s,
        unfolded new_request_def]
    by blast
  have e: "\<not> lookup_fails (fault_at w 0) \<and> event_of (db w) ident = Some ev
          \<and> (lookup_fails (fault_at w 1) \<or> \<not> registered (db w) u ident)
          \<and> (capacity_checked ev \<longrightarrow>
                lookup_fails (fault_at w 2)
                \<or> int (registration_count (db w) ident) < capacity ev)
          \<and> \<not> write_fails (fault_at w (if capacity_checked ev then 3 else 2)) \<longrightarrow>
          event_registrations (db (snd (register_body ident u w)))
            = event_registrations (db w)
              @ [\<lparr>r_id = auto_increment w EventRegistrations, r_user_id = u,
                  r_event_id = ident, r_registered_at = now w\<rparr>]
          \<and> fst (register_body ident u w) = Redirect (Events_view_event ident)
          \<and> flashes (snd (register_body ident u w))
              = flashes w @ [(''Successfully registered for '' @ quoted (e_title ev) @ ''!'',
                              ''success'')]"
    using register_inserts [where w = w and ident = ident and ev = ev and u = u,
        unfolded new_registration_def]
    by blast
  show ?thesis unfolding b using m r e by blast
qed


text \<open>
  The theorem where the insert of the notification fails, where the guarded block is
  left before the call and where it is left after it: the message, the request and the
  registration are kept and the success path is taken.
\<close>

theorem notification_failure_tolerated_witness:
  "user_id alice = Some 11
   \<and> fault_at notification_fails 2 = ExecuteError
   \<and> interrupt notification_raises = ExceptionBeforeCall
   \<and> messages (db (snd (send_message 12 (Some [104, 105]) alice notification_fails)))
       = messages db1 @ [\<lparr>m_id = 9, m_sender_id = 11, m_receiver_id = 12,
                           m_message = [104, 105], m_created_at = 7\<rparr>]
   \<and> fst (send_message 12 (Some [104, 105]) alice notification_fails)
       = Redirect (Chat_conversation 12)
   \<and> flashes (snd (send_message 12 (Some [104, 105]) alice notification_fails)) = []
   \<and> messages (db (snd (send_message 12 (Some [104, 105]) alice notification_raises)))
       = messages db1 @ [\<lparr>m_id = 9, m_sender_id = 11, m_receiver_id = 12,
                           m_message = [104, 105], m_created_at = 7\<rparr>]
   \<and> messages (db (snd (send_message 12 (Some [104, 105]) alice
        (world1\<lparr>interrupt := ExceptionAfterCall\<rparr>))))
       = messages db1 @ [\<lparr>m_id = 9, m_sender_id = 11, m_receiver_id = 12,
                           m_message = [104, 105], m_created_at = 7\<rparr>]
   \<and> connections (db (snd (send_request 13 alice notification_fails)))
       = connections db1 @ [\<lparr>c_id = 7, c_sender_id = 11, c_receiver_id = 13,
                              c_status = ''pending'', c_created_at = 7\<rparr>]
   \<and> flashes (snd (send_request 13 alice notification_fails))
       = [(''Connection request sent successfully!'', ''success'')]
   \<and> connections (db (snd (send_request 13 alice notification_raises)))
       = connections db1 @ [\<lparr>c_id = 7, c_sender_id = 11, c_receiver_id = 13,
                              c_status = ''pending'', c_created_at = 7\<rparr>]
   \<and> event_registrations (db (snd (register 6 alice (world3\<lparr>interrupt := ExceptionBeforeCall\<rparr>))))
       = event_registrations db3 @ [\<lparr>r_id = 4, r_user_id = 11, r_event_id = 6,
                                      r_registered_at = 7\<rparr>]
   \<and> flashes (snd (register 6 alice (world3\<lparr>interrupt := ExceptionBeforeCall\<rparr>)))
       = [(''Successfully registered for '' @ quoted ''Talk'' @ ''!'', ''success'')]
   \<and> event_registrations (db (snd (register 6 alice
        (world3\<lparr>faults := [NoFault, NoFault, NoFault, CommitError]\<rparr>))))
       = event_registrations db3 @ [\<lparr>r_id = 4, r_user_id = 11, r_event_id = 6,
                                      r_registered_at = 7\<rparr>]"
proof -
  let ?c = "\<lparr>c_id = 5, c_sender_id = 11, c_receiver_id = 12, c_status = ''accepted'',
             c_created_at = 2\<rparr>"
  let ?talk = "\<lparr>e_id = 6, e_title = ''Talk'', e_max_participants = None\<rparr>"
  let ?after = "world1\<lparr>interrupt := ExceptionAfterCall\<rparr>"
  let ?before3 = "world3\<lparr>interrupt := ExceptionBeforeCall\<rparr>"
  let ?fails3 = "world3\<lparr>faults := [NoFault, NoFault, NoFault, CommitError]\<rparr>"
  have a: "user_id alice = Some 11" by simp
  have nf: "fault_at notification_fails 2 = ExecuteError"
    and nr: "interrupt notification_raises = ExceptionBeforeCall" by simp_all
  have t: "message_text (Some [104, 105]) = [104, 105]" by simp
  have rows: "accepted_between (db notification_fails) 11 12 = [?c]"
    "accepted_between (db notification_raises) 11 12 = [?c]"
    "accepted_between (db ?after) 11 12 = [?c]"
    by (simp_all add: db1_rows)
  have none: "rows_between (db notification_fails) 11 13 = []"
    "rows_between (db notification_raises) 11 13 = []"
    by (simp_all add: rows_between_def)
  have f: "\<not> lookup_fails (fault_at notification_fails 0)"
    "\<not> write_fails (fault_at notification_fails 1)"
    "\<not> lookup_fails (fault_at notification_raises 0)"
    "\<not> write_fails (fault_at notification_raises 1)"
    "\<not> lookup_fails (fault_at ?after 0)" "\<not> write_fails (fault_at ?after 1)"
    "\<not> lookup_fails (fault_at ?before3 0)" "\<not> write_fails (fault_at ?before3 2)"
    "\<not> lookup_fails (fault_at ?fails3 0)" "\<not> write_fails (fault_at ?fails3 2)"
    by (simp_all add: fault_at_def)
  have ev: "event_of (db ?before3) 6 = Some ?talk" "event_of (db ?fails3) 6 = Some ?talk"
    "\<not> registered (db ?before3) 11 6" "\<not> registered (db ?fails3) 11 6"
    "\<not> capacity_checked ?talk"
    by (simp_all add: event_of_def registered_def capacity_checked_def)
  have m1: "messages (db (snd (send_message 12 (Some [104, 105]) alice notification_fails)))
       = messages db1 @ [\<lparr>m_id = 9, m_sender_id = 11, m_receiver_id = 12,
                           m_message = [104, 105], m_created_at = 7\<rparr>]
      \<and> fst (send_message 12 (Some [104, 105]) alice notification_fails)
          = Redirect (Chat_conversation 12)
      \<and> flashes (snd (send_message 12 (Some [104, 105]) alice notification_fails)) = []"
    using notification_failure_tolerated [OF a, where p = 12 and w = notification_fails
        and c = ?c and m = "Some [104, 105]", THEN conjunct1] rows(1) f(1,2) t
    by simp
  have m2: "messages (db (snd (send_message 12 (Some [104, 105]) alice notification_raises)))
       = messages db1 @ [\<lparr>m_id = 9, m_sender_id = 11, m_receiver_id = 12,
                           m_message = [104, 105], m_created_at = 7\<rparr>]"
    using notification_failure_tolerated [OF a, where p = 12 and w = notification_raises
        and c = ?c and m = "Some [104, 105]", THEN conjunct1] rows(2) f(3,4) t
    by simp
  have m3: "messages (db (snd (send_message 12 (Some [104, 105]) alice ?after)))
       = messages db1 @ [\<lparr>m_id = 9, m_sender_id = 11, m_receiver_id = 12,
                           m_message = [104, 105], m_created_at = 7\<rparr>]"
    using notification_failure_tolerated [OF a, where p = 12 and w = ?after
        and c = ?c and m = "Some [104, 105]", THEN conjunct1] rows(3) f(5,6) t
    by simp
  have r1: "connections (db (snd (send_request 13 alice notification_fails)))
       = connections db1 @ [\<lparr>c_id = 7, c_sender_id = 11, c_receiver_id = 13,
                              c_status = ''pending'', c_created_at = 7\<rparr>]
      \<and> flashes (snd (send_request 13 alice notification_fails))
          = [(''Connection request sent successfully!'', ''success'')]"
    using notification_failure_tolerated [OF a, where t = 13 and w = notification_fails,
        THEN conjunct2, THEN conjunct1] none(1) f(2)
    by simp
  have r2: "connections (db (snd (send_request 13 alice notification_raises)))
       = connections db1 @ [\<lparr>c_id = 7, c_sender_id = 11, c_receiver_id = 13,
                              c_status = ''pending'', c_created_at = 7\<rparr>]"
    using notification_failure_tolerated [OF a, where t = 13 and w = notification_raises,
        THEN conjunct2, THEN conjunct1] none(2) f(4)
    by simp
  have e1: "event_registrations (db (snd (register 6 alice ?before3)))
       = event_registrations db3 @ [\<lparr>r_id = 4, r_user_id = 11, r_event_id = 6,
                                      r_registered_at = 7\<rparr>]
      \<and> flashes (snd (register 6 alice ?before3))
          = [(''Successfully registered for '' @ quoted ''Talk'' @ ''!'', ''success'')]"
    using notification_failure_tolerated [OF a, where ident = 6 and w = ?before3
        and ev = ?talk, THEN conjunct2, THEN conjunct2] ev f(7,8)
    by simp
  have e2: "event_registrations (db (snd (register 6 alice ?fails3)))
       = event_registrations db3 @ [\<lparr>r_id = 4, r_user_id = 11, r_event_id = 6,
                                      r_registered_at = 7\<rparr>]"
    using notification_failure_tolerated [OF a, where ident = 6 and w = ?fails3
        and ev = ?talk, THEN conjunct2, THEN conjunct2] ev f(9,10)
    by simp
  from a nf nr m1 m2 m3 r1 r2 e1 e2 show ?thesis by blast
qed

end
